theory Spec2Isabelle
  imports Main "HOL-Library.Sublist"
begin

unbundle bit_operations_syntax

section \<open>The index object type of tclIndexObj.c\<close>

text \<open>
  The file looks a keyword up in a table of strings, caches the index found in the
  object, and builds the "wrong # args" message. The embedding follows the C text
  function by function.

  Conventions. A C string is the list of its bytes before the terminating NUL, so
  \<open>*p = '\0'\<close> is "the list is exhausted". A \<open>char *\<close> that may be NULL is a
  \<open>string option\<close>. The counters \<open>i\<close>, \<open>index\<close>, \<open>numAbbrev\<close> and \<open>count\<close> are C
  \<open>int\<close>s that only count table entries; they are unbounded integers here (a table
  has far fewer than \<open>2^31\<close> entries). The product \<open>(offset) * (index)\<close> of
  \<open>STRING_AT\<close> is a byte displacement, not a count, and is taken in 32-bit \<open>int\<close>
  arithmetic as the macro takes it. A function that need not return (a table with no
  NULL sentinel, a NULL pointer handed to \<open>strlen\<close>) yields \<open>None\<close>.
\<close>

subsection \<open>Memory holding the keyword tables\<close>

type_synonym addr = int

text \<open>
  What a \<open>CONST char * CONST *\<close> read at an address yields: NULL or a string. The
  macros are those of lines 59-62; \<open>NEXT_ENTRY\<close> is the address of
  \<open>STRING_AT(table, offset, 1)\<close>.

  \<open>STRING_AT\<close> multiplies \<open>offset\<close> and \<open>index\<close>, two C \<open>int\<close>s (the fields of
  \<open>IndexRep\<close>, the parameter \<open>offset\<close>), before the product is added to the
  \<open>char *\<close>. \<open>int_times\<close> is that product: the mathematical one when it lies in the
  range of a 32-bit \<open>int\<close>, which \<open>fits_int\<close> says; beyond the range C leaves the
  result undefined, and the value taken is the one the two's-complement machines
  give, the low 32 bits read as a signed number. Adding the product to the pointer is
  pointer arithmetic and does not wrap. In \<open>NEXT_ENTRY\<close> the product is
  \<open>offset * 1\<close>, the \<open>int\<close> \<open>offset\<close> itself.
\<close>

type_synonym memory = "addr \<Rightarrow> string option"

definition fits_int :: "int \<Rightarrow> bool" where
  "fits_int x = (- 2147483648 \<le> x \<and> x < 2147483648)"

definition int_times :: "int \<Rightarrow> int \<Rightarrow> int" where
  "int_times a b = (a * b + 2147483648) mod 4294967296 - 2147483648"

definition STRING_AT :: "memory \<Rightarrow> addr \<Rightarrow> int \<Rightarrow> int \<Rightarrow> string option" where
  "STRING_AT mem tbl offs idx = mem (tbl + int_times offs idx)"

definition NEXT_ENTRY :: "addr \<Rightarrow> int \<Rightarrow> addr" where
  "NEXT_ENTRY tbl offs = tbl + offs * 1"

subsection \<open>Objects, the index representation, interpreters\<close>

record IndexRep =
  tablePtr :: addr
  offset :: int
  index :: int

text \<open>
  Modelled from the spec: the structures \<open>Tcl_Obj\<close>, \<open>Interp\<close> and its
  \<open>ensembleRewrite\<close> are declared in tcl.h and tclInt.h, which are not among the
  sources. The records hold the fields that tclIndexObj.c reads and writes; the
  \<open>length\<close> of an object is the length of its \<open>bytes\<close>.

  \<open>internalRep\<close> is \<open>typePtr\<close> together with the internal representation: no type,
  the index type with its \<open>IndexRep\<close> (the record is owned by the object, so it is
  held in place), or some other type, of which only the string its own
  \<open>updateStringProc\<close> renders matters here.
\<close>

datatype internalRep = NoType | IndexType IndexRep | OtherType string

record Tcl_Obj =
  bytes :: "string option"
  intrep :: internalRep

record EnsembleRewrite =
  sourceObjs :: "Tcl_Obj list option"
  numRemovedObjs :: int
  numInsertedObjs :: int

record Interp =
  objResult :: string
  iflags :: int
  ensembleRewrite :: EnsembleRewrite

datatype retcode = TCL_OK | TCL_ERROR

text \<open>
  Modelled from the spec: the values of \<open>TCL_EXACT\<close> (tcl.h) and
  \<open>INTERP_ALTERNATE_WRONG_ARGS\<close> (tclInt.h) are not among the sources. The spec
  speaks of an exact flag and an alternate-form flag; each is one bit here, and the
  code only tests \<open>flags & TCL_EXACT\<close> and
  \<open>iPtr->flags & INTERP_ALTERNATE_WRONG_ARGS\<close> against zero.
\<close>

definition TCL_EXACT :: int where
  "TCL_EXACT = 1"

definition INTERP_ALTERNATE_WRONG_ARGS :: int where
  "INTERP_ALTERNATE_WRONG_ARGS = 0x400"

text \<open>
  Modelled from the spec: \<open>Tcl_SetObjResult\<close> and \<open>Tcl_GetObjResult\<close> belong to
  tclResult.c, which is not among the sources; they are the error channel's "set
  current result text" and "read current result text". The result object is
  appended to after it has been set (line 272), so the text is the finished one.
\<close>

definition Tcl_SetObjResult :: "Interp \<Rightarrow> string \<Rightarrow> Interp" where
  "Tcl_SetObjResult interp text = interp\<lparr>objResult := text\<rparr>"

text \<open>The macro of lines 63-64.\<close>

definition EXPAND_OF :: "memory \<Rightarrow> IndexRep \<Rightarrow> string option" where
  "EXPAND_OF mem indexRep = STRING_AT mem (tablePtr indexRep) (offset indexRep) (index indexRep)"

subsection \<open>UpdateStringOfIndex and the string form of an object\<close>

text \<open>
  Lines 341-355. \<open>strlen\<close> of a NULL entry, or a call on an object that is not of
  index type, does not return.
\<close>

definition UpdateStringOfIndex :: "memory \<Rightarrow> Tcl_Obj \<Rightarrow> Tcl_Obj option" where
  "UpdateStringOfIndex mem objPtr =
     (case intrep objPtr of
        IndexType indexRep \<Rightarrow>
          (case EXPAND_OF mem indexRep of
             None \<Rightarrow> None
           | Some indexStr \<Rightarrow> Some (objPtr\<lparr>bytes := Some indexStr\<rparr>))
      | _ \<Rightarrow> None)"

text \<open>
  Modelled from the spec: \<open>Tcl_GetStringFromObj\<close> lives in tclObj.c, which is not
  among the sources. A value holds a string form, "immutable once computed", or a
  cached form whose type descriptor can \<open>stringify\<close> it: the string form is returned
  when present and is otherwise computed by the type's \<open>updateStringProc\<close> and kept
  in the object. An object with neither form has no string to return.
\<close>

definition Tcl_GetStringFromObj :: "memory \<Rightarrow> Tcl_Obj \<Rightarrow> (string \<times> Tcl_Obj) option" where
  "Tcl_GetStringFromObj mem objPtr =
     (case bytes objPtr of
        Some s \<Rightarrow> Some (s, objPtr)
      | None \<Rightarrow>
          (case intrep objPtr of
             NoType \<Rightarrow> None
           | OtherType s \<Rightarrow> Some (s, objPtr\<lparr>bytes := Some s\<rparr>)
           | IndexType indexRep \<Rightarrow>
               (case UpdateStringOfIndex mem objPtr of
                  None \<Rightarrow> None
                | Some obj' \<Rightarrow> map_option (\<lambda>s. (s, obj')) (bytes obj'))))"

subsection \<open>Tcl_GetIndexFromObjStruct\<close>

text \<open>
  Lines 217-223, the inner \<open>for\<close> loop over \<open>p1\<close> and \<open>p2\<close> and the test
  \<open>*p1 == '\0'\<close> after it:
  both strings end together (\<open>goto done\<close>), the key ends first (an abbreviation), or
  the loop stops at a difference.
\<close>

datatype cmp = Exact | Abbrev | Differ

fun compare_key :: "string \<Rightarrow> string \<Rightarrow> cmp" where
  "compare_key [] [] = Exact"
| "compare_key [] (c # cs) = Abbrev"
| "compare_key (k # ks) [] = Differ"
| "compare_key (k # ks) (c # cs) = (if k = c then compare_key ks cs else Differ)"

text \<open>
  Lines 215-235, the outer loop. \<open>Done i\<close> is the jump to \<open>done\<close> with \<open>index = i\<close>;
  \<open>Scanned index numAbbrev\<close> is the loop left at the NULL sentinel.
\<close>

datatype scan_result = Done int | Scanned int int

partial_function (option) scan_table ::
  "memory \<Rightarrow> string \<Rightarrow> int \<Rightarrow> addr \<Rightarrow> int \<Rightarrow> int \<Rightarrow> int \<Rightarrow> scan_result option" where
  "scan_table mem key offs entryPtr i idx numAbbrev =
     (case mem entryPtr of
        None \<Rightarrow> Some (Scanned idx numAbbrev)
      | Some entry \<Rightarrow>
          (case compare_key key entry of
             Exact \<Rightarrow> Some (Done i)
           | Abbrev \<Rightarrow> scan_table mem key offs (NEXT_ENTRY entryPtr offs) (i + 1) i (numAbbrev + 1)
           | Differ \<Rightarrow> scan_table mem key offs (NEXT_ENTRY entryPtr offs) (i + 1) idx numAbbrev))"

text \<open>
  What a call leaves behind: the return code, the value stored at \<open>*indexPtr\<close> if
  any, the object, the interpreter, and how many \<open>IndexRep\<close> records it allocated.
\<close>

record outcome =
  status :: retcode
  indexOut :: "int option"
  objOut :: Tcl_Obj
  interpOut :: "Interp option"
  ckallocs :: nat

text \<open>
  Lines 243-262, the code after the label \<open>done\<close>. An object of index type keeps
  its record, which is overwritten; any other object has its old representation
  freed and a record allocated.
\<close>

definition cache_rep :: "Interp option \<Rightarrow> Tcl_Obj \<Rightarrow> addr \<Rightarrow> int \<Rightarrow> int \<Rightarrow> outcome" where
  "cache_rep interp objPtr tbl offs idx =
     \<lparr>status = TCL_OK, indexOut = Some idx,
      objOut = objPtr\<lparr>intrep := IndexType \<lparr>tablePtr = tbl, offset = offs, index = idx\<rparr>\<rparr>,
      interpOut = interp,
      ckallocs = (case intrep objPtr of IndexType r \<Rightarrow> 0 | _ \<Rightarrow> 1)\<rparr>"

text \<open>
  Lines 276-287, the loop of the error branch, which appends the entries after the
  first.
  \<open>Tcl_AppendStringsToObj\<close> stops at its first NULL argument.
\<close>

partial_function (option) append_entries ::
  "memory \<Rightarrow> int \<Rightarrow> addr \<Rightarrow> int \<Rightarrow> string \<Rightarrow> string option" where
  "append_entries mem offs entryPtr count resultPtr =
     (case mem entryPtr of
        None \<Rightarrow> Some resultPtr
      | Some entry \<Rightarrow>
          (case mem (NEXT_ENTRY entryPtr offs) of
             None \<Rightarrow>
               append_entries mem offs (NEXT_ENTRY entryPtr offs) (count + 1)
                 (resultPtr @ (if count > 0 then '', or '' else '' or '') @ entry)
           | Some nxt \<Rightarrow>
               append_entries mem offs (NEXT_ENTRY entryPtr offs) (count + 1)
                 (resultPtr @ '', '' @ entry)))"

text \<open>Lines 264-289, the code after the label \<open>error\<close>.\<close>

definition report_error ::
  "memory \<Rightarrow> Interp option \<Rightarrow> Tcl_Obj \<Rightarrow> addr \<Rightarrow> int \<Rightarrow> string \<Rightarrow> string \<Rightarrow> int \<Rightarrow> outcome option" where
  "report_error mem interp objPtr tbl offs msg key numAbbrev =
     (case interp of
        None \<Rightarrow>
          Some \<lparr>status = TCL_ERROR, indexOut = None, objOut = objPtr, interpOut = None,
                ckallocs = 0\<rparr>
      | Some ip \<Rightarrow>
          (case append_entries mem offs (NEXT_ENTRY tbl offs) 0
                  ((if numAbbrev > 1 then ''ambiguous '' else ''bad '') @ msg @ '' '' @ [CHR 0x22]
                    @ key @ [CHR 0x22] @ '': must be ''
                    @ (case STRING_AT mem tbl offs 0 of None \<Rightarrow> [] | Some entry \<Rightarrow> entry)) of
             None \<Rightarrow> None
           | Some text \<Rightarrow>
               Some \<lparr>status = TCL_ERROR, indexOut = None, objOut = objPtr,
                     interpOut = Some (Tcl_SetObjResult ip text), ckallocs = 0\<rparr>))"

text \<open>
  Lines 113-124 and 184-190, the test that opens both lookup functions: a cached
  result for this table and this offset.
\<close>

definition cached_index :: "Tcl_Obj \<Rightarrow> addr \<Rightarrow> int \<Rightarrow> int option" where
  "cached_index objPtr tbl offs =
     (case intrep objPtr of
        IndexType indexRep \<Rightarrow>
          (if tablePtr indexRep = tbl \<and> offset indexRep = offs then Some (index indexRep)
           else None)
      | _ \<Rightarrow> None)"

text \<open>Lines 158-290.\<close>

definition Tcl_GetIndexFromObjStruct ::
  "memory \<Rightarrow> Interp option \<Rightarrow> Tcl_Obj \<Rightarrow> addr \<Rightarrow> int \<Rightarrow> string \<Rightarrow> int \<Rightarrow> outcome option" where
  "Tcl_GetIndexFromObjStruct mem interp objPtr tbl offs msg flags =
     (case cached_index objPtr tbl offs of
        Some idx \<Rightarrow>
          Some \<lparr>status = TCL_OK, indexOut = Some idx, objOut = objPtr, interpOut = interp,
                ckallocs = 0\<rparr>
      | None \<Rightarrow>
          (case Tcl_GetStringFromObj mem objPtr of
             None \<Rightarrow> None
           | Some (key, obj1) \<Rightarrow>
               (if key = [] then report_error mem interp obj1 tbl offs msg key 0
                else
                  (case scan_table mem key offs tbl 0 (- 1) 0 of
                     None \<Rightarrow> None
                   | Some (Done idx) \<Rightarrow> Some (cache_rep interp obj1 tbl offs idx)
                   | Some (Scanned idx numAbbrev) \<Rightarrow>
                       (if flags AND TCL_EXACT \<noteq> 0 \<or> numAbbrev \<noteq> 1
                        then report_error mem interp obj1 tbl offs msg key numAbbrev
                        else Some (cache_rep interp obj1 tbl offs idx))))))"

text \<open>
  Lines 94-127, \<open>Tcl_GetIndexFromObj\<close>; \<open>sizeof(char *)\<close> depends on the platform
  and is a parameter.
\<close>

definition Tcl_GetIndexFromObj ::
  "int \<Rightarrow> memory \<Rightarrow> Interp option \<Rightarrow> Tcl_Obj \<Rightarrow> addr \<Rightarrow> string \<Rightarrow> int \<Rightarrow> outcome option" where
  "Tcl_GetIndexFromObj sizeof_ptr mem interp objPtr tbl msg flags =
     (case cached_index objPtr tbl sizeof_ptr of
        Some idx \<Rightarrow>
          Some \<lparr>status = TCL_OK, indexOut = Some idx, objOut = objPtr, interpOut = interp,
                ckallocs = 0\<rparr>
      | None \<Rightarrow> Tcl_GetIndexFromObjStruct mem interp objPtr tbl sizeof_ptr msg flags)"

subsection \<open>Tcl_WrongNumArgs\<close>

text \<open>
  The list-quoting functions \<open>Tcl_ScanCountedElement\<close> and
  \<open>Tcl_ConvertCountedElement\<close> belong to tclUtil.c and are parameters, as is the
  compile-time switch \<open>AVOID_HACKS_FOR_ITCL\<close>. The scan returns the length the
  quoted element needs and the conversion flags; the conversion returns the bytes it
  wrote.
\<close>

record config =
  AVOID_HACKS_FOR_ITCL :: bool
  Tcl_ScanCountedElement :: "string \<Rightarrow> int \<times> int"
  Tcl_ConvertCountedElement :: "string \<Rightarrow> int \<Rightarrow> string"

definition MAY_QUOTE_WORD :: "config \<Rightarrow> bool \<Rightarrow> bool" where
  "MAY_QUOTE_WORD cfg isFirst = (if AVOID_HACKS_FOR_ITCL cfg then True else \<not> isFirst)"

text \<open>
  Lines 496-507 and 545-555, "Add the element, quoting it if necessary": the block
  both loops contain, as the bytes it hands to \<open>Tcl_AppendToObj\<close>.
\<close>

definition quoted_element :: "config \<Rightarrow> bool \<Rightarrow> string \<Rightarrow> string" where
  "quoted_element cfg isFirst elementStr =
     (case Tcl_ScanCountedElement cfg elementStr of
        (len, flags) \<Rightarrow>
          if MAY_QUOTE_WORD cfg isFirst \<and> len \<noteq> int (length elementStr)
          then Tcl_ConvertCountedElement cfg elementStr flags
          else elementStr)"

text \<open>Reading \<open>a[i]\<close>; outside the array there is nothing to return.\<close>

definition array_read :: "'a list \<Rightarrow> int \<Rightarrow> 'a option" where
  "array_read a i = (if 0 \<le> i \<and> i < int (length a) then Some (a ! nat i) else None)"

text \<open>
  Lines 491-521, the loop over \<open>ensembleRewrite.sourceObjs\<close>; \<open>objc\<close> is already
  reduced by \<open>numInsertedObjs\<close>. The string forms the loops compute are also stored in the
  argument objects; that write is not followed here.
\<close>

function source_loop ::
  "config \<Rightarrow> memory \<Rightarrow> Tcl_Obj list \<Rightarrow> int \<Rightarrow> int \<Rightarrow> string option \<Rightarrow> int \<Rightarrow> bool \<Rightarrow> string
    \<Rightarrow> (string \<times> bool) option" where
  "source_loop cfg mem src numRemoved objc message i isFirst objPtr =
     (if i < numRemoved then
        (case array_read src i of
           None \<Rightarrow> None
         | Some ob \<Rightarrow>
             (case Tcl_GetStringFromObj mem ob of
                None \<Rightarrow> None
              | Some (elementStr, ob') \<Rightarrow>
                  source_loop cfg mem src numRemoved objc message (i + 1) False
                    (objPtr @ quoted_element cfg isFirst elementStr
                      @ (if i < numRemoved - 1 \<or> objc \<noteq> 0 \<or> message \<noteq> None then '' '' else []))))
      else Some (objPtr, isFirst))"
  by pat_completeness auto
termination
  by (relation "measure (\<lambda>(cfg, mem, src, numRemoved, objc, message, i, isFirst, objPtr).
        nat (numRemoved - i))") auto

text \<open>
  Lines 537-556, what the loop over \<open>objv\<close> appends for one entry: the table entry
  of an object of
  index type (\<open>Tcl_AppendStringsToObj\<close> appends nothing for NULL), the string form
  otherwise, quoted if necessary.
\<close>

definition entry_text :: "config \<Rightarrow> memory \<Rightarrow> bool \<Rightarrow> Tcl_Obj \<Rightarrow> string option" where
  "entry_text cfg mem isFirst ob =
     (case intrep ob of
        IndexType indexRep \<Rightarrow> Some (case EXPAND_OF mem indexRep of None \<Rightarrow> [] | Some s \<Rightarrow> s)
      | _ \<Rightarrow>
          (case Tcl_GetStringFromObj mem ob of
             None \<Rightarrow> None
           | Some (elementStr, ob') \<Rightarrow> Some (quoted_element cfg isFirst elementStr)))"

text \<open>Lines 530-568, the loop over \<open>objv\<close>.\<close>

function objv_loop ::
  "config \<Rightarrow> memory \<Rightarrow> Tcl_Obj list \<Rightarrow> int \<Rightarrow> string option \<Rightarrow> int \<Rightarrow> bool \<Rightarrow> string
    \<Rightarrow> string option" where
  "objv_loop cfg mem objv objc message i isFirst objPtr =
     (if i < objc then
        (case array_read objv i of
           None \<Rightarrow> None
         | Some ob \<Rightarrow>
             (case entry_text cfg mem isFirst ob of
                None \<Rightarrow> None
              | Some appended \<Rightarrow>
                  objv_loop cfg mem objv objc message (i + 1) False
                    (objPtr @ appended
                      @ (if i < objc - 1 \<or> message \<noteq> None then '' '' else []))))
      else Some objPtr)"
  by pat_completeness auto
termination
  by (relation "measure (\<lambda>(cfg, mem, objv, objc, message, i, isFirst, objPtr). nat (objc - i))")
    auto

text \<open>
  Lines 435-582. \<open>objv += numInsertedObjs\<close> with a negative count leaves the
  argument array; no result is given for it.
\<close>

definition Tcl_WrongNumArgs ::
  "config \<Rightarrow> memory \<Rightarrow> Interp \<Rightarrow> int \<Rightarrow> Tcl_Obj list \<Rightarrow> string option \<Rightarrow> Interp option" where
  \<open>Tcl_WrongNumArgs cfg mem iPtr objc objv message =
     (let objPtr =
            (if iflags iPtr AND INTERP_ALTERNATE_WRONG_ARGS \<noteq> 0
             then objResult iPtr @ '' or "''
             else ''wrong # args: should be "'');
          rw = ensembleRewrite iPtr
      in
        case (case sourceObjs rw of
                None \<Rightarrow> Some (objPtr, True, objv, objc)
              | Some src \<Rightarrow>
                  if objc \<ge> numInsertedObjs rw then
                    (if numInsertedObjs rw < 0 then None
                     else
                       (case source_loop cfg mem src (numRemovedObjs rw)
                               (objc - numInsertedObjs rw) message 0 True objPtr of
                          None \<Rightarrow> None
                        | Some (objPtr', isFirst) \<Rightarrow>
                            Some (objPtr', isFirst, drop (nat (numInsertedObjs rw)) objv,
                                  objc - numInsertedObjs rw)))
                  else Some (objPtr, True, objv, objc)) of
          None \<Rightarrow> None
        | Some (objPtr1, isFirst, objv1, objc1) \<Rightarrow>
            (case objv_loop cfg mem objv1 objc1 message 0 isFirst objPtr1 of
               None \<Rightarrow> None
             | Some objPtr2 \<Rightarrow>
                 Some (Tcl_SetObjResult iPtr
                        (objPtr2 @ (case message of None \<Rightarrow> [] | Some m \<Rightarrow> m) @ ''"''))))\<close>

subsection \<open>Tables in memory, and objects whose cached index is sound\<close>

text \<open>
  \<open>entries_at\<close>: the strings \<open>es\<close> stand at \<open>p\<close>, \<open>p + offs\<close>, ... in this order.
  \<open>table_at\<close>: and the NULL sentinel follows them.
\<close>

fun entries_at :: "memory \<Rightarrow> addr \<Rightarrow> int \<Rightarrow> string list \<Rightarrow> bool" where
  "entries_at mem p offs [] = True"
| "entries_at mem p offs (e # es) = (mem p = Some e \<and> entries_at mem (NEXT_ENTRY p offs) offs es)"

fun table_at :: "memory \<Rightarrow> addr \<Rightarrow> int \<Rightarrow> string list \<Rightarrow> bool" where
  "table_at mem p offs [] = (mem p = None)"
| "table_at mem p offs (e # es) = (mem p = Some e \<and> table_at mem (NEXT_ENTRY p offs) offs es)"

text \<open>
  The invariant of an object of index type: its record holds what a scan of its own
  table finds for its own string form (an exact match, or the one abbreviation).
  Objects of another type satisfy it trivially.
\<close>

definition index_rep_valid :: "memory \<Rightarrow> Tcl_Obj \<Rightarrow> bool" where
  "index_rep_valid mem objPtr =
     (case intrep objPtr of
        IndexType r \<Rightarrow>
          (case Tcl_GetStringFromObj mem objPtr of
             None \<Rightarrow> False
           | Some (key, obj1) \<Rightarrow>
               key \<noteq> [] \<and>
               (case scan_table mem key (offset r) (tablePtr r) 0 (- 1) 0 of
                  None \<Rightarrow> False
                | Some (Done idx) \<Rightarrow> idx = index r
                | Some (Scanned idx numAbbrev) \<Rightarrow> idx = index r \<and> numAbbrev = 1))
      | _ \<Rightarrow> True)"

subsection \<open>Example objects and tables\<close>

text \<open>
  Modelled from the spec: \<open>Tcl_NewStringObj\<close> belongs to tclObj.c, which is not among
  the sources; it makes a value that holds a string form and no cached form.
\<close>

definition Tcl_NewStringObj :: "string \<Rightarrow> Tcl_Obj" where
  "Tcl_NewStringObj s = \<lparr>bytes = Some s, intrep = NoType\<rparr>"

text \<open>
  A memory that holds six tables with entries eight bytes apart: \<open>attach\<close>, \<open>detach\<close>
  at 100 and the same keywords in the other order at 200; one empty string at 300;
  \<open>start\<close>, \<open>stop\<close>, \<open>status\<close> at 400; \<open>attachment\<close>, \<open>attach\<close> at 500; and
  \<open>two words\<close> at 600. Every other address reads NULL.
\<close>

definition demo_mem :: memory where
  "demo_mem = (\<lambda>a. None)
     (100 := Some ''attach'', 108 := Some ''detach'',
      200 := Some ''detach'', 208 := Some ''attach'',
      300 := Some '''',
      400 := Some ''start'', 408 := Some ''stop'', 416 := Some ''status'',
      500 := Some ''attachment'', 508 := Some ''attach'',
      600 := Some ''two words'')"

text \<open>
  A memory with one table whose entries are \<open>2^30\<close> bytes apart: \<open>alpha\<close>, \<open>beta\<close>
  and \<open>gamma\<close> at \<open>2^31\<close>, with its NULL sentinel. The string \<open>other\<close> lies at
  address 0, which is \<open>2^31\<close> bytes before the table.
\<close>

definition wide_mem :: memory where
  "wide_mem = (\<lambda>a. None)
     (0 := Some ''other'',
      2147483648 := Some ''alpha'', 3221225472 := Some ''beta'',
      4294967296 := Some ''gamma'')"

definition demo_interp :: Interp where
  "demo_interp = \<lparr>objResult = [], iflags = 0,
     ensembleRewrite = \<lparr>sourceObjs = None, numRemovedObjs = 0, numInsertedObjs = 0\<rparr>\<rparr>"

text \<open>
  A stand-in for the list-quoting functions: a word with a space in it needs two
  more bytes and is wrapped in braces. The build is the default one, without
  \<open>AVOID_HACKS_FOR_ITCL\<close>.
\<close>

definition demo_config :: config where
  "demo_config =
     \<lparr>AVOID_HACKS_FOR_ITCL = False,
      Tcl_ScanCountedElement =
        (\<lambda>s. if CHR '' '' \<in> set s then (int (length s) + 2, 1) else (int (length s), 0)),
      Tcl_ConvertCountedElement = (\<lambda>s flags. if flags = 1 then ''{'' @ s @ ''}'' else s)\<rparr>"

section \<open>Properties of the lookup\<close>

subsection \<open>The two loops over a table\<close>

lemma compare_key_Exact: "compare_key k e = Exact \<longleftrightarrow> k = e"
  by (induction k e rule: compare_key.induct) auto

lemma compare_key_Abbrev: "compare_key k e = Abbrev \<longleftrightarrow> strict_prefix k e"
  by (induction k e rule: compare_key.induct) auto

lemma table_at_entries: "table_at mem p offs (pre @ post) \<Longrightarrow> entries_at mem p offs pre"
  by (induction pre arbitrary: p) auto

lemma int_times_exact: "fits_int (a * b) \<Longrightarrow> int_times a b = a * b"
  by (simp add: fits_int_def int_times_def)

lemma int_times_zero: "int_times a 0 = 0"
  by (simp add: int_times_def)

lemma table_at_address:
  "table_at mem p offs es \<Longrightarrow> j < length es \<Longrightarrow> mem (p + offs * int j) = Some (es ! j)"
proof (induction es arbitrary: p j)
  case Nil
  then show ?case by simp
next
  case (Cons e es)
  show ?case
  proof (cases j)
    case 0
    with Cons.prems show ?thesis by simp
  next
    case (Suc j')
    with Cons.prems have "mem (NEXT_ENTRY p offs + offs * int j') = Some (es ! j')"
      by (intro Cons.IH) auto
    with Suc show ?thesis by (simp add: NEXT_ENTRY_def algebra_simps)
  qed
qed

lemma table_at_sentinel_address:
  "table_at mem p offs es \<Longrightarrow> mem (p + offs * int (length es)) = None"
proof (induction es arbitrary: p)
  case Nil
  then show ?case by simp
next
  case (Cons e es)
  then have "mem (NEXT_ENTRY p offs + offs * int (length es)) = None" by simp
  then show ?case by (simp add: NEXT_ENTRY_def algebra_simps)
qed

text \<open>
  The macro reaches entry \<open>j\<close> of a table, and its sentinel, when the displacement
  fits an \<open>int\<close>.
\<close>

lemma table_at_nth:
  "table_at mem p offs es \<Longrightarrow> j < length es \<Longrightarrow> fits_int (offs * int j) \<Longrightarrow>
   STRING_AT mem p offs (int j) = Some (es ! j)"
  by (simp add: STRING_AT_def int_times_exact table_at_address)

lemma table_at_sentinel:
  "table_at mem p offs es \<Longrightarrow> fits_int (offs * int (length es)) \<Longrightarrow>
   STRING_AT mem p offs (int (length es)) = None"
  by (simp add: STRING_AT_def int_times_exact table_at_sentinel_address)

lemma scan_table_exact:
  "entries_at mem p offs (pre @ [key]) \<Longrightarrow> key \<notin> set pre \<Longrightarrow>
   scan_table mem key offs p i idx n = Some (Done (i + int (length pre)))"
proof (induction pre arbitrary: p i idx n)
  case Nil
  then show ?case by (subst scan_table.simps) (simp add: compare_key_Exact[THEN iffD2])
next
  case (Cons e pre)
  from Cons.prems have ne: "compare_key key e \<noteq> Exact" by (auto simp: compare_key_Exact)
  from Cons.prems have ih: "\<And>i idx n. scan_table mem key offs (NEXT_ENTRY p offs) i idx n
      = Some (Done (i + int (length pre)))"
    by (intro Cons.IH) auto
  from Cons.prems have "mem p = Some e" by simp
  with ne ih show ?case
    by (subst scan_table.simps) (cases "compare_key key e"; simp)
qed

lemma scan_table_no_exact:
  "table_at mem p offs es \<Longrightarrow> key \<notin> set es \<Longrightarrow>
   \<exists>idx'. scan_table mem key offs p i idx n
        = Some (Scanned idx' (n + int (length (filter (strict_prefix key) es))))
      \<and> (filter (strict_prefix key) es = [] \<longrightarrow> idx' = idx)
      \<and> (\<forall>j<length es. strict_prefix key (es ! j)
            \<longrightarrow> (\<forall>k<length es. j < k \<longrightarrow> \<not> strict_prefix key (es ! k))
            \<longrightarrow> idx' = i + int j)"
proof (induction es arbitrary: p i idx n)
  case Nil
  then show ?case by (subst scan_table.simps) simp
next
  case (Cons e es)
  from Cons.prems have m: "mem p = Some e" and t: "table_at mem (NEXT_ENTRY p offs) offs es"
    and k: "key \<notin> set es" and ne: "compare_key key e \<noteq> Exact"
    by (auto simp: compare_key_Exact)
  show ?case
  proof (cases "strict_prefix key e")
    case True
    then have c: "compare_key key e = Abbrev" by (simp add: compare_key_Abbrev)
    from Cons.IH[OF t k, of "i + 1" i "n + 1"] obtain idx' where
      s: "scan_table mem key offs (NEXT_ENTRY p offs) (i + 1) i (n + 1)
            = Some (Scanned idx' (n + 1 + int (length (filter (strict_prefix key) es))))"
      and z: "filter (strict_prefix key) es = [] \<longrightarrow> idx' = i"
      and l: "\<forall>j<length es. strict_prefix key (es ! j)
            \<longrightarrow> (\<forall>k<length es. j < k \<longrightarrow> \<not> strict_prefix key (es ! k))
            \<longrightarrow> idx' = i + 1 + int j"
      by blast
    have "scan_table mem key offs p i idx n
        = Some (Scanned idx' (n + int (length (filter (strict_prefix key) (e # es)))))"
      using m c s True by (subst scan_table.simps) simp
    moreover have "filter (strict_prefix key) (e # es) = [] \<longrightarrow> idx' = idx"
      using True by simp
    moreover have "\<forall>j<length (e # es). strict_prefix key ((e # es) ! j)
            \<longrightarrow> (\<forall>k<length (e # es). j < k \<longrightarrow> \<not> strict_prefix key ((e # es) ! k))
            \<longrightarrow> idx' = i + int j"
    proof (intro allI impI)
      fix j assume j: "j < length (e # es)" and pj: "strict_prefix key ((e # es) ! j)"
        and last: "\<forall>k<length (e # es). j < k \<longrightarrow> \<not> strict_prefix key ((e # es) ! k)"
      show "idx' = i + int j"
      proof (cases j)
        case 0
        have "filter (strict_prefix key) es = []"
        proof (rule ccontr)
          assume "filter (strict_prefix key) es \<noteq> []"
          then obtain x where "x \<in> set es" "strict_prefix key x"
            by (metis filter_False)
          then obtain k where "k < length es" "strict_prefix key (es ! k)"
            by (metis in_set_conv_nth)
          with last 0 show False by (auto dest: spec[of _ "Suc k"])
        qed
        with z 0 show ?thesis by simp
      next
        case (Suc j')
        with j pj last have "j' < length es" "strict_prefix key (es ! j')"
          "\<forall>k<length es. j' < k \<longrightarrow> \<not> strict_prefix key (es ! k)"
          by (auto dest: spec[of _ "Suc _"])
        with l Suc show ?thesis by simp
      qed
    qed
    ultimately show ?thesis by blast
  next
    case False
    with ne have c: "compare_key key e = Differ"
      by (cases "compare_key key e") (auto simp: compare_key_Abbrev)
    from Cons.IH[OF t k, of "i + 1" idx n] obtain idx' where
      s: "scan_table mem key offs (NEXT_ENTRY p offs) (i + 1) idx n
            = Some (Scanned idx' (n + int (length (filter (strict_prefix key) es))))"
      and z: "filter (strict_prefix key) es = [] \<longrightarrow> idx' = idx"
      and l: "\<forall>j<length es. strict_prefix key (es ! j)
            \<longrightarrow> (\<forall>k<length es. j < k \<longrightarrow> \<not> strict_prefix key (es ! k))
            \<longrightarrow> idx' = i + 1 + int j"
      by blast
    have "scan_table mem key offs p i idx n
        = Some (Scanned idx' (n + int (length (filter (strict_prefix key) (e # es)))))"
      using m c s False by (subst scan_table.simps) simp
    moreover have "filter (strict_prefix key) (e # es) = [] \<longrightarrow> idx' = idx"
      using False z by simp
    moreover have "\<forall>j<length (e # es). strict_prefix key ((e # es) ! j)
            \<longrightarrow> (\<forall>k<length (e # es). j < k \<longrightarrow> \<not> strict_prefix key ((e # es) ! k))
            \<longrightarrow> idx' = i + int j"
    proof (intro allI impI)
      fix j assume j: "j < length (e # es)" and pj: "strict_prefix key ((e # es) ! j)"
        and last: "\<forall>k<length (e # es). j < k \<longrightarrow> \<not> strict_prefix key ((e # es) ! k)"
      from pj False obtain j' where Suc: "j = Suc j'" by (cases j) auto
      with j pj last have "j' < length es" "strict_prefix key (es ! j')"
          "\<forall>k<length es. j' < k \<longrightarrow> \<not> strict_prefix key (es ! k)"
          by (auto dest: spec[of _ "Suc _"])
      with l Suc show "idx' = i + int j" by simp
    qed
    ultimately show ?thesis by blast
  qed
qed

lemma GetString_bytes:
  "Tcl_GetStringFromObj mem objPtr = Some (key, obj1) \<Longrightarrow>
   bytes obj1 = Some key \<and> intrep obj1 = intrep objPtr \<and> obj1 = objPtr\<lparr>bytes := Some key\<rparr>"
  by (auto simp: Tcl_GetStringFromObj_def UpdateStringOfIndex_def
      split: option.splits internalRep.splits)

lemma GetString_present:
  "bytes objPtr = Some s \<Longrightarrow> Tcl_GetStringFromObj mem objPtr = Some (s, objPtr)"
  by (simp add: Tcl_GetStringFromObj_def)

lemma append_entries_table:
  "table_at mem p offs rest \<Longrightarrow>
   append_entries mem offs p count acc
     = Some (acc @ (case rest of [] \<Rightarrow> []
          | _ \<Rightarrow> concat (map (\<lambda>e. '', '' @ e) (butlast rest))
                @ (if 1 < count + int (length rest) then '', or '' else '' or '') @ last rest))"
proof (induction rest arbitrary: p count acc)
  case Nil
  then show ?case by (subst append_entries.simps) simp
next
  case (Cons e rest)
  then have m: "mem p = Some e" and t: "table_at mem (NEXT_ENTRY p offs) offs rest" by auto
  show ?case
  proof (cases rest)
    case Nil
    with t have n: "mem (NEXT_ENTRY p offs) = None" by simp
    have "append_entries mem offs (NEXT_ENTRY p offs) (count + 1)
            (acc @ (if count > 0 then '', or '' else '' or '') @ e)
          = Some (acc @ (if count > 0 then '', or '' else '' or '') @ e)"
      using n by (subst append_entries.simps) simp
    with m n Nil show ?thesis by (subst append_entries.simps) simp
  next
    case (Cons e' rest')
    with t have n: "mem (NEXT_ENTRY p offs) = Some e'" by simp
    from Cons.IH[OF t, of "count + 1" "acc @ '', '' @ e"] Cons m n
    show ?thesis by (subst append_entries.simps) (simp add: algebra_simps)
  qed
qed

lemma last_satisfying:
  "filter P es \<noteq> [] \<Longrightarrow> \<exists>j<length es. P (es ! j) \<and> (\<forall>k<length es. j < k \<longrightarrow> \<not> P (es ! k))"
proof (induction es rule: rev_induct)
  case Nil
  then show ?case by simp
next
  case (snoc x es)
  show ?case
  proof (cases "P x")
    case True
    then show ?thesis by (intro exI[of _ "length es"]) (auto simp: nth_append)
  next
    case False
    with snoc obtain j where j: "j < length es" "P (es ! j)"
      "\<forall>k<length es. j < k \<longrightarrow> \<not> P (es ! k)" by auto
    with False show ?thesis
      by (intro exI[of _ j]) (auto simp: nth_append less_Suc_eq)
  qed
qed

lemma scan_table_found:
  assumes t: "table_at mem tbl offs es" and k: "key \<in> set es"
  shows "\<exists>j<length es. es ! j = key \<and> key \<notin> set (take j es)
           \<and> scan_table mem key offs tbl 0 idx n = Some (Done (int j))"
proof -
  from k obtain pre post where e: "es = pre @ key # post" "key \<notin> set pre"
    by (auto dest: split_list_first)
  with t have "entries_at mem tbl offs (pre @ [key])"
    using table_at_entries[of mem tbl offs "pre @ [key]" post] by simp
  with e have "scan_table mem key offs tbl 0 idx n = Some (Done (int (length pre)))"
    using scan_table_exact[of mem tbl offs pre key 0 idx n] by simp
  with e show ?thesis by (intro exI[of _ "length pre"]) auto
qed

lemma scan_table_result:
  assumes t: "table_at mem tbl offs es"
  shows "\<exists>res. scan_table mem key offs tbl 0 (- 1) 0 = Some res \<and>
     (case res of
        Done idx \<Rightarrow> key \<in> set es \<and> (\<exists>j<length es. idx = int j \<and> es ! j = key \<and> key \<notin> set (take j es))
      | Scanned idx numAbbrev \<Rightarrow> key \<notin> set es
          \<and> numAbbrev = int (length (filter (strict_prefix key) es))
          \<and> (numAbbrev = 1 \<longrightarrow> (\<exists>j<length es. idx = int j \<and> strict_prefix key (es ! j))))"
proof (cases "key \<in> set es")
  case True
  from scan_table_found[OF t True, of "- 1" 0] show ?thesis using True by auto
next
  case False
  from scan_table_no_exact[OF t False, of 0 "- 1" 0] obtain idx' where
    s: "scan_table mem key offs tbl 0 (- 1) 0
          = Some (Scanned idx' (int (length (filter (strict_prefix key) es))))"
    and l: "\<forall>j<length es. strict_prefix key (es ! j)
            \<longrightarrow> (\<forall>k<length es. j < k \<longrightarrow> \<not> strict_prefix key (es ! k))
            \<longrightarrow> idx' = int j"
    by auto
  have "length (filter (strict_prefix key) es) = 1 \<longrightarrow>
          (\<exists>j<length es. idx' = int j \<and> strict_prefix key (es ! j))"
  proof
    assume "length (filter (strict_prefix key) es) = 1"
    then have "filter (strict_prefix key) es \<noteq> []" by auto
    from last_satisfying[OF this] l show "\<exists>j<length es. idx' = int j \<and> strict_prefix key (es ! j)"
      by blast
  qed
  with s False show ?thesis by simp
qed

lemma report_error_no_interp:
  "report_error mem None objPtr tbl offs msg key numAbbrev
     = Some \<lparr>status = TCL_ERROR, indexOut = None, objOut = objPtr, interpOut = None, ckallocs = 0\<rparr>"
  by (simp add: report_error_def)

lemma report_error_table:
  assumes "table_at mem tbl offs (e0 # rest)"
  shows \<open>report_error mem (Some ip) objPtr tbl offs msg key numAbbrev
     = Some \<lparr>status = TCL_ERROR, indexOut = None, objOut = objPtr,
        interpOut = Some (Tcl_SetObjResult ip
          ((if 1 < numAbbrev then ''ambiguous '' else ''bad '') @ msg @ '' "'' @ key
            @ ''": must be '' @ e0
            @ (case rest of [] \<Rightarrow> []
               | _ \<Rightarrow> concat (map (\<lambda>e. '', '' @ e) (butlast rest))
                     @ (if 1 < length rest then '', or '' else '' or '') @ last rest))),
        ckallocs = 0\<rparr>\<close>
proof -
  from assms have m: "STRING_AT mem tbl offs 0 = Some e0"
    and t: "table_at mem (NEXT_ENTRY tbl offs) offs rest"
    by (simp_all add: STRING_AT_def int_times_zero)
  show ?thesis
    unfolding report_error_def
    by (simp add: m append_entries_table[OF t] split: list.splits)
qed

lemma report_error_status:
  "report_error mem interp objPtr tbl offs msg key numAbbrev = Some out \<Longrightarrow>
   status out = TCL_ERROR \<and> indexOut out = None \<and> objOut out = objPtr \<and> ckallocs out = 0
   \<and> (case interp of None \<Rightarrow> interpOut out = None
       | Some ip \<Rightarrow> \<exists>text. interpOut out = Some (ip\<lparr>objResult := text\<rparr>))"
  by (auto simp: report_error_def Tcl_SetObjResult_def split: option.splits)

lemma report_error_returns:
  "table_at mem tbl offs es \<Longrightarrow> interp = None \<or> es \<noteq> [] \<Longrightarrow>
   \<exists>out. report_error mem interp objPtr tbl offs msg key numAbbrev = Some out"
  by (cases interp; cases es) (auto simp: report_error_no_interp report_error_table)

lemma cached_index_Some:
  "cached_index objPtr tbl offs = Some idx \<longleftrightarrow>
   (\<exists>r. intrep objPtr = IndexType r \<and> tablePtr r = tbl \<and> offset r = offs \<and> index r = idx)"
  by (auto simp: cached_index_def split: internalRep.splits)

lemma cached_call:
  "cached_index objPtr tbl offs = Some idx \<Longrightarrow>
   Tcl_GetIndexFromObjStruct mem interp objPtr tbl offs msg flags
     = Some \<lparr>status = TCL_OK, indexOut = Some idx, objOut = objPtr, interpOut = interp,
             ckallocs = 0\<rparr>"
  by (simp add: Tcl_GetIndexFromObjStruct_def)

lemma uncached_call:
  "cached_index objPtr tbl offs = None \<Longrightarrow> Tcl_GetStringFromObj mem objPtr = Some (key, obj1) \<Longrightarrow>
   Tcl_GetIndexFromObjStruct mem interp objPtr tbl offs msg flags
     = (if key = [] then report_error mem interp obj1 tbl offs msg key 0
        else
          (case scan_table mem key offs tbl 0 (- 1) 0 of
             None \<Rightarrow> None
           | Some (Done idx) \<Rightarrow> Some (cache_rep interp obj1 tbl offs idx)
           | Some (Scanned idx numAbbrev) \<Rightarrow>
               (if flags AND TCL_EXACT \<noteq> 0 \<or> numAbbrev \<noteq> 1
                then report_error mem interp obj1 tbl offs msg key numAbbrev
                else Some (cache_rep interp obj1 tbl offs idx))))"
  by (simp add: Tcl_GetIndexFromObjStruct_def)

lemma call_has_string:
  "Tcl_GetIndexFromObjStruct mem interp objPtr tbl offs msg flags = Some out \<Longrightarrow>
   cached_index objPtr tbl offs = None \<Longrightarrow>
   \<exists>key obj1. Tcl_GetStringFromObj mem objPtr = Some (key, obj1)"
  by (auto simp: Tcl_GetIndexFromObjStruct_def split: option.splits)

lemma valid_cached_scan:
  assumes v: "index_rep_valid mem objPtr" and c: "cached_index objPtr tbl offs = Some idx"
    and g: "Tcl_GetStringFromObj mem objPtr = Some (key, obj1)"
  shows "key \<noteq> [] \<and> (scan_table mem key offs tbl 0 (- 1) 0 = Some (Done idx)
          \<or> scan_table mem key offs tbl 0 (- 1) 0 = Some (Scanned idx 1))"
proof -
  from c obtain r where r: "intrep objPtr = IndexType r" "tablePtr r = tbl" "offset r = offs"
    "index r = idx" by (auto simp: cached_index_Some)
  with v g show ?thesis
    by (auto simp: index_rep_valid_def split: option.splits scan_result.splits)
qed

lemma scan_table_absent:
  assumes t: "table_at mem tbl offs es" and k: "key \<notin> set es"
  shows "\<exists>idx. scan_table mem key offs tbl 0 (- 1) 0
            = Some (Scanned idx (int (length (filter (strict_prefix key) es))))
          \<and> (length (filter (strict_prefix key) es) = 1 \<longrightarrow>
               (\<exists>j<length es. idx = int j \<and> strict_prefix key (es ! j)))"
proof -
  from scan_table_result[OF t, of key] obtain res where
    r: "scan_table mem key offs tbl 0 (- 1) 0 = Some res"
    "case res of
        Done idx \<Rightarrow> key \<in> set es \<and> (\<exists>j<length es. idx = int j \<and> es ! j = key \<and> key \<notin> set (take j es))
      | Scanned idx numAbbrev \<Rightarrow> key \<notin> set es
          \<and> numAbbrev = int (length (filter (strict_prefix key) es))
          \<and> (numAbbrev = 1 \<longrightarrow> (\<exists>j<length es. idx = int j \<and> strict_prefix key (es ! j)))"
    by blast
  with k show ?thesis by (cases res) auto
qed

lemma call_ok_cached:
  assumes "Tcl_GetIndexFromObjStruct mem interp objPtr tbl offs msg flags = Some out"
    and "status out = TCL_OK"
  shows "\<exists>idx. indexOut out = Some idx \<and> cached_index (objOut out) tbl offs = Some idx"
proof (cases "cached_index objPtr tbl offs")
  case (Some idx)
  with assms cached_call[OF Some, of mem interp msg flags] show ?thesis by auto
next
  case None
  from call_has_string[OF assms(1) None] obtain key obj1 where
    g: "Tcl_GetStringFromObj mem objPtr = Some (key, obj1)" by blast
  from assms uncached_call[OF None g, of interp msg flags]
  show ?thesis
    by (auto simp: cache_rep_def cached_index_def split: if_splits option.splits
        scan_result.splits dest: report_error_status)
qed

lemma call_error_uncached:
  assumes "Tcl_GetIndexFromObjStruct mem interp objPtr tbl offs msg flags = Some out"
    and "status out = TCL_ERROR"
  shows "cached_index objPtr tbl offs = None"
proof (cases "cached_index objPtr tbl offs")
  case (Some idx)
  with assms cached_call[OF Some, of mem interp msg flags] show ?thesis by auto
qed simp

lemma scan_index_in_table:
  assumes t: "table_at mem tbl offs es"
    and s: "scan_table mem key offs tbl 0 (- 1) 0 = Some (Done idx)
          \<or> scan_table mem key offs tbl 0 (- 1) 0 = Some (Scanned idx 1)"
  shows "\<exists>j<length es. idx = int j \<and> prefix key (es ! j)"
proof -
  from scan_table_result[OF t, of key] obtain res where
    r: "scan_table mem key offs tbl 0 (- 1) 0 = Some res"
    "case res of
        Done idx \<Rightarrow> key \<in> set es \<and> (\<exists>j<length es. idx = int j \<and> es ! j = key \<and> key \<notin> set (take j es))
      | Scanned idx numAbbrev \<Rightarrow> key \<notin> set es
          \<and> numAbbrev = int (length (filter (strict_prefix key) es))
          \<and> (numAbbrev = 1 \<longrightarrow> (\<exists>j<length es. idx = int j \<and> strict_prefix key (es ! j)))"
    by blast
  with s show ?thesis by (cases res) (auto simp: strict_prefix_def)
qed

lemma call_ok_in_table:
  assumes t: "table_at mem tbl offs es" and v: "index_rep_valid mem objPtr"
    and c: "Tcl_GetIndexFromObjStruct mem interp objPtr tbl offs msg flags = Some out"
    and ok: "status out = TCL_OK"
  shows "\<exists>j<length es. indexOut out = Some (int j)"
proof (cases "cached_index objPtr tbl offs")
  case (Some idx)
  from Some obtain r where r: "intrep objPtr = IndexType r" by (auto simp: cached_index_Some)
  with v obtain key obj1 where g: "Tcl_GetStringFromObj mem objPtr = Some (key, obj1)"
    by (auto simp: index_rep_valid_def split: option.splits)
  from valid_cached_scan[OF v Some g] scan_index_in_table[OF t, of key idx]
  obtain j where "j < length es" "idx = int j" by blast
  with c cached_call[OF Some, of mem interp msg flags] show ?thesis by auto
next
  case None
  from call_has_string[OF c None] obtain key obj1 where
    g: "Tcl_GetStringFromObj mem objPtr = Some (key, obj1)" by blast
  from c ok uncached_call[OF None g, of interp msg flags]
  obtain idx where i: "indexOut out = Some idx"
    and "scan_table mem key offs tbl 0 (- 1) 0 = Some (Done idx)
          \<or> scan_table mem key offs tbl 0 (- 1) 0 = Some (Scanned idx 1)"
    by (auto simp: cache_rep_def split: if_splits option.splits scan_result.splits
        dest: report_error_status)
  from scan_index_in_table[OF t this(2)] i show ?thesis by auto
qed

text \<open>
  The invariant holds of every object without an index record, and every lookup that
  returns leaves it true.
\<close>

lemma index_rep_valid_fresh: "index_rep_valid mem (Tcl_NewStringObj s)"
  by (simp add: index_rep_valid_def Tcl_NewStringObj_def)

lemma index_rep_valid_kept:
  assumes v: "index_rep_valid mem objPtr"
    and c: "Tcl_GetIndexFromObjStruct mem interp objPtr tbl offs msg flags = Some out"
  shows "index_rep_valid mem (objOut out)"
proof (cases "cached_index objPtr tbl offs")
  case (Some idx)
  with v c cached_call[OF Some, of mem interp msg flags] show ?thesis by auto
next
  case None
  from call_has_string[OF c None] obtain key obj1 where
    g: "Tcl_GetStringFromObj mem objPtr = Some (key, obj1)" by blast
  from GetString_bytes[OF g] have b: "bytes obj1 = Some key" "intrep obj1 = intrep objPtr"
    by simp_all
  show ?thesis
  proof (cases "status out")
    case TCL_OK
    from c TCL_OK uncached_call[OF None g, of interp msg flags]
    obtain idx where k: "key \<noteq> []"
      and o: "objOut out = obj1\<lparr>intrep := IndexType \<lparr>tablePtr = tbl, offset = offs, index = idx\<rparr>\<rparr>"
      and s: "scan_table mem key offs tbl 0 (- 1) 0 = Some (Done idx)
          \<or> scan_table mem key offs tbl 0 (- 1) 0 = Some (Scanned idx 1)"
      by (auto simp: cache_rep_def split: if_splits option.splits scan_result.splits
          dest: report_error_status)
    from o b k s show ?thesis
      by (auto simp: index_rep_valid_def Tcl_GetStringFromObj_def)
  next
    case TCL_ERROR
    from c TCL_ERROR uncached_call[OF None g, of interp msg flags]
    obtain numAbbrev where "report_error mem interp obj1 tbl offs msg key numAbbrev = Some out"
      by (auto simp: cache_rep_def split: if_splits option.splits scan_result.splits)
    from report_error_status[OF this] have o: "objOut out = obj1" by simp
    show ?thesis
    proof (cases "intrep objPtr")
      case (IndexType r)
      with v g b o show ?thesis
        by (auto simp: index_rep_valid_def Tcl_GetStringFromObj_def split: option.splits)
    qed (use b o in \<open>simp_all add: index_rep_valid_def\<close>)
  qed
qed

lemmas lookup_eval =
  Tcl_GetIndexFromObjStruct_def Tcl_GetIndexFromObj_def cached_index_def
  Tcl_GetStringFromObj_def UpdateStringOfIndex_def EXPAND_OF_def STRING_AT_def int_times_def NEXT_ENTRY_def
  cache_rep_def report_error_def Tcl_SetObjResult_def Tcl_NewStringObj_def TCL_EXACT_def
  scan_table.simps append_entries.simps index_rep_valid_def demo_mem_def demo_interp_def

subsection \<open>Exact matches\<close>

text \<open>
  C1, for a non-empty string. A non-empty string that equals a table entry is found at
  the first entry equal to it: the call returns \<open>TCL_OK\<close> with that index
  and leaves the index cached in the object, whatever stands before the entry (also
  entries the string abbreviates) and whatever follows it in memory (the scan stops
  there; not even a sentinel is needed). An object that already carries an index record
  is taken to carry a sound one.
\<close>

theorem exact_match_wins:
  assumes "entries_at mem tbl offs (pre @ [key])" and "key \<notin> set pre" and "key \<noteq> []"
    and "Tcl_GetStringFromObj mem objPtr = Some (key, obj1)"
    and "index_rep_valid mem objPtr"
  shows "\<exists>out. Tcl_GetIndexFromObjStruct mem interp objPtr tbl offs msg flags = Some out
           \<and> status out = TCL_OK \<and> indexOut out = Some (int (length pre))
           \<and> interpOut out = interp
           \<and> intrep (objOut out)
               = IndexType \<lparr>tablePtr = tbl, offset = offs, index = int (length pre)\<rparr>"
proof -
  have s: "scan_table mem key offs tbl 0 (- 1) 0 = Some (Done (int (length pre)))"
    using scan_table_exact[OF assms(1,2), of 0 "- 1" 0] by simp
  show ?thesis
  proof (cases "cached_index objPtr tbl offs")
    case None
    from uncached_call[OF None assms(4), of interp msg flags] s assms(3)
    show ?thesis by (simp add: cache_rep_def)
  next
    case (Some idx)
    from valid_cached_scan[OF assms(5) Some assms(4)] s have i: "idx = int (length pre)" by simp
    from Some obtain r where r: "intrep objPtr = IndexType r" "tablePtr r = tbl"
      "offset r = offs" "index r = idx" by (auto simp: cached_index_Some)
    then have e: "r = \<lparr>tablePtr = tbl, offset = offs, index = idx\<rparr>" by simp
    with r i cached_call[OF Some, of mem interp msg flags] show ?thesis by simp
  qed
qed

theorem exact_match_wins_witness:
  "entries_at demo_mem 500 8 ([''attachment''] @ [''attach''])
   \<and> ''attach'' \<notin> set [''attachment''] \<and> ''attach'' \<noteq> []
   \<and> strict_prefix ''attach'' ''attachment''
   \<and> Tcl_GetStringFromObj demo_mem (Tcl_NewStringObj ''attach'')
        = Some (''attach'', Tcl_NewStringObj ''attach'')
   \<and> index_rep_valid demo_mem (Tcl_NewStringObj ''attach'')
   \<and> (\<exists>out. Tcl_GetIndexFromObjStruct demo_mem None (Tcl_NewStringObj ''attach'') 500 8
                 ''option'' 0 = Some out
          \<and> status out = TCL_OK \<and> indexOut out = Some 1 \<and> interpOut out = None
          \<and> intrep (objOut out) = IndexType \<lparr>tablePtr = 500, offset = 8, index = 1\<rparr>)"
proof -
  have h1: "entries_at demo_mem 500 8 ([''attachment''] @ [''attach''])"
    by (simp add: demo_mem_def NEXT_ENTRY_def)
  have h2: "''attach'' \<notin> set [''attachment'']" by simp
  have h3: "''attach'' \<noteq> []" by simp
  have h4: "Tcl_GetStringFromObj demo_mem (Tcl_NewStringObj ''attach'')
        = Some (''attach'', Tcl_NewStringObj ''attach'')"
    by (simp add: Tcl_GetStringFromObj_def Tcl_NewStringObj_def)
  have h5: "index_rep_valid demo_mem (Tcl_NewStringObj ''attach'')"
    by (simp add: index_rep_valid_def Tcl_NewStringObj_def)
  from exact_match_wins[OF h1 h2 h3 h4 h5, of None "''option''" 0] h1 h2 h3 h4 h5
  show ?thesis by simp
qed

theorem empty_entry_not_matched:
  "table_at demo_mem 300 8 ['''']
   \<and> Tcl_GetStringFromObj demo_mem (Tcl_NewStringObj '''') = Some ('''', Tcl_NewStringObj '''')
   \<and> Tcl_GetIndexFromObjStruct demo_mem None (Tcl_NewStringObj '''') 300 8 ''option'' 0
       = Some \<lparr>status = TCL_ERROR, indexOut = None, objOut = Tcl_NewStringObj '''',
               interpOut = None, ckallocs = 0\<rparr>"
  by (simp add: lookup_eval)

lemma abbreviation_lookup:
  assumes "table_at mem tbl offs es" and "interp = None \<or> es \<noteq> []"
    and "Tcl_GetStringFromObj mem objPtr = Some (key, obj1)"
    and "key \<noteq> []" and "key \<notin> set es"
    and "cached_index objPtr tbl offs = None"
  shows "\<exists>out. Tcl_GetIndexFromObjStruct mem interp objPtr tbl offs msg flags = Some out
     \<and> (status out = TCL_OK \<longleftrightarrow>
          length (filter (strict_prefix key) es) = 1 \<and> flags AND TCL_EXACT = 0)
     \<and> (status out = TCL_OK \<longrightarrow>
          (\<exists>j<length es. strict_prefix key (es ! j) \<and> indexOut out = Some (int j)))
     \<and> (status out \<noteq> TCL_OK \<longrightarrow> status out = TCL_ERROR \<and> indexOut out = None)"
proof -
  from scan_table_absent[OF assms(1,5)] obtain idx where
    s: "scan_table mem key offs tbl 0 (- 1) 0
          = Some (Scanned idx (int (length (filter (strict_prefix key) es))))"
    and j: "length (filter (strict_prefix key) es) = 1 \<longrightarrow>
          (\<exists>j<length es. idx = int j \<and> strict_prefix key (es ! j))"
    by blast
  show ?thesis
  proof (cases "flags AND TCL_EXACT \<noteq> 0 \<or> length (filter (strict_prefix key) es) \<noteq> 1")
    case True
    from report_error_returns[OF assms(1,2)] obtain out where
      r: "report_error mem interp obj1 tbl offs msg key
            (int (length (filter (strict_prefix key) es))) = Some out" by blast
    from report_error_status[OF r] have "status out = TCL_ERROR" "indexOut out = None" by simp_all
    moreover have "Tcl_GetIndexFromObjStruct mem interp objPtr tbl offs msg flags = Some out"
      using uncached_call[OF assms(6,3), of interp msg flags] s r True assms(4) by auto
    ultimately show ?thesis using True by auto
  next
    case False
    then have "Tcl_GetIndexFromObjStruct mem interp objPtr tbl offs msg flags
        = Some (cache_rep interp obj1 tbl offs idx)"
      using uncached_call[OF assms(6,3), of interp msg flags] s assms(4) by auto
    with False j show ?thesis by (auto simp: cache_rep_def)
  qed
qed


subsection \<open>Abbreviations\<close>

text \<open>
  C2, for an object with no cached index for the table. Take a table with at least one
  entry (or no interpreter to report to) and an object that carries no cached index for
  this table, with a non-empty string form that equals no entry. The call returns, and
  it returns \<open>TCL_OK\<close> exactly when the string is a strict prefix of
  exactly one entry and \<open>TCL_EXACT\<close> is not set; the index stored is then
  that of the entry. In every other case it returns \<open>TCL_ERROR\<close> and stores
  no index. An object that carries a cached index for the table gets it back, whatever
  the flags.
\<close>

theorem unique_abbreviation_accepted:
  "(cached_index objPtr tbl offs = None \<and> table_at mem tbl offs es
      \<and> (interp = None \<or> es \<noteq> [])
      \<and> Tcl_GetStringFromObj mem objPtr = Some (key, obj') \<and> key \<noteq> [] \<and> key \<notin> set es \<longrightarrow>
    (\<exists>out. Tcl_GetIndexFromObjStruct mem interp objPtr tbl offs msg flags = Some out
       \<and> (status out = TCL_OK \<longleftrightarrow>
            length (filter (strict_prefix key) es) = 1 \<and> flags AND TCL_EXACT = 0)
       \<and> (status out = TCL_OK \<longrightarrow>
            (\<exists>j<length es. strict_prefix key (es ! j) \<and> indexOut out = Some (int j)))
       \<and> (status out \<noteq> TCL_OK \<longrightarrow> status out = TCL_ERROR \<and> indexOut out = None)))
   \<and> (cached_index objPtr tbl offs = Some idx \<longrightarrow>
    Tcl_GetIndexFromObjStruct mem interp objPtr tbl offs msg flags
      = Some \<lparr>status = TCL_OK, indexOut = Some idx, objOut = objPtr, interpOut = interp,
              ckallocs = 0\<rparr>)"
proof (intro conjI impI)
  assume "cached_index objPtr tbl offs = None \<and> table_at mem tbl offs es
      \<and> (interp = None \<or> es \<noteq> [])
      \<and> Tcl_GetStringFromObj mem objPtr = Some (key, obj') \<and> key \<noteq> [] \<and> key \<notin> set es"
  then show "\<exists>out. Tcl_GetIndexFromObjStruct mem interp objPtr tbl offs msg flags = Some out
       \<and> (status out = TCL_OK \<longleftrightarrow>
            length (filter (strict_prefix key) es) = 1 \<and> flags AND TCL_EXACT = 0)
       \<and> (status out = TCL_OK \<longrightarrow>
            (\<exists>j<length es. strict_prefix key (es ! j) \<and> indexOut out = Some (int j)))
       \<and> (status out \<noteq> TCL_OK \<longrightarrow> status out = TCL_ERROR \<and> indexOut out = None)"
    using abbreviation_lookup[of mem tbl offs es interp objPtr key obj' msg flags] by blast
next
  assume "cached_index objPtr tbl offs = Some idx"
  then show "Tcl_GetIndexFromObjStruct mem interp objPtr tbl offs msg flags
      = Some \<lparr>status = TCL_OK, indexOut = Some idx, objOut = objPtr, interpOut = interp,
              ckallocs = 0\<rparr>"
    by (rule cached_call)
qed

theorem unique_abbreviation_accepted_witness:
  "cached_index (Tcl_NewStringObj ''att'') 100 8 = None
   \<and> table_at demo_mem 100 8 [''attach'', ''detach'']
   \<and> (Some demo_interp = None \<or> [''attach'', ''detach''] \<noteq> [])
   \<and> Tcl_GetStringFromObj demo_mem (Tcl_NewStringObj ''att'')
        = Some (''att'', Tcl_NewStringObj ''att'')
   \<and> ''att'' \<noteq> [] \<and> ''att'' \<notin> set [''attach'', ''detach'']
   \<and> length (filter (strict_prefix ''att'') [''attach'', ''detach'']) = 1
   \<and> (0::int) AND TCL_EXACT = 0
   \<and> (\<exists>out. Tcl_GetIndexFromObjStruct demo_mem (Some demo_interp) (Tcl_NewStringObj ''att'')
              100 8 ''option'' 0 = Some out
          \<and> status out = TCL_OK
          \<and> (\<exists>j<length [''attach'', ''detach''].
                 strict_prefix ''att'' ([''attach'', ''detach''] ! j) \<and> indexOut out = Some (int j)))
   \<and> TCL_EXACT AND TCL_EXACT \<noteq> 0
   \<and> (\<exists>out. Tcl_GetIndexFromObjStruct demo_mem (Some demo_interp) (Tcl_NewStringObj ''att'')
              100 8 ''option'' TCL_EXACT = Some out
          \<and> status out = TCL_ERROR \<and> indexOut out = None)
   \<and> cached_index
        \<lparr>bytes = Some ''att'', intrep = IndexType \<lparr>tablePtr = 100, offset = 8, index = 0\<rparr>\<rparr>
        100 8 = Some 0
   \<and> Tcl_GetIndexFromObjStruct demo_mem (Some demo_interp)
        \<lparr>bytes = Some ''att'', intrep = IndexType \<lparr>tablePtr = 100, offset = 8, index = 0\<rparr>\<rparr>
        100 8 ''option'' TCL_EXACT
      = Some \<lparr>status = TCL_OK, indexOut = Some 0,
              objOut = \<lparr>bytes = Some ''att'',
                        intrep = IndexType \<lparr>tablePtr = 100, offset = 8, index = 0\<rparr>\<rparr>,
              interpOut = Some demo_interp, ckallocs = 0\<rparr>"
proof -
  have h: "cached_index (Tcl_NewStringObj ''att'') 100 8 = None
     \<and> table_at demo_mem 100 8 [''attach'', ''detach'']
     \<and> (Some demo_interp = None \<or> [''attach'', ''detach''] \<noteq> [])
     \<and> Tcl_GetStringFromObj demo_mem (Tcl_NewStringObj ''att'')
        = Some (''att'', Tcl_NewStringObj ''att'')
     \<and> ''att'' \<noteq> [] \<and> ''att'' \<notin> set [''attach'', ''detach'']"
    by (simp add: cached_index_def Tcl_NewStringObj_def Tcl_GetStringFromObj_def demo_mem_def
        NEXT_ENTRY_def)
  have c: "length (filter (strict_prefix ''att'') [''attach'', ''detach'']) = 1" by simp
  have e: "(0::int) AND TCL_EXACT = 0" "TCL_EXACT AND TCL_EXACT \<noteq> 0"
    by (simp_all add: TCL_EXACT_def)
  have k: "cached_index
        \<lparr>bytes = Some ''att'', intrep = IndexType \<lparr>tablePtr = 100, offset = 8, index = 0\<rparr>\<rparr>
        100 8 = Some 0"
    by (simp add: cached_index_def)
  from unique_abbreviation_accepted[where objPtr = "Tcl_NewStringObj ''att''" and tbl = 100
      and offs = 8 and mem = demo_mem and es = "[''attach'', ''detach'']"
      and interp = "Some demo_interp" and key = "''att''" and obj' = "Tcl_NewStringObj ''att''"
      and msg = "''option''" and flags = 0] h c e
  have a: "\<exists>out. Tcl_GetIndexFromObjStruct demo_mem (Some demo_interp) (Tcl_NewStringObj ''att'')
              100 8 ''option'' 0 = Some out
          \<and> status out = TCL_OK
          \<and> (\<exists>j<length [''attach'', ''detach''].
                 strict_prefix ''att'' ([''attach'', ''detach''] ! j) \<and> indexOut out = Some (int j))"
    by auto
  from unique_abbreviation_accepted[where objPtr = "Tcl_NewStringObj ''att''" and tbl = 100
      and offs = 8 and mem = demo_mem and es = "[''attach'', ''detach'']"
      and interp = "Some demo_interp" and key = "''att''" and obj' = "Tcl_NewStringObj ''att''"
      and msg = "''option''" and flags = TCL_EXACT] h c e
  have b: "\<exists>out. Tcl_GetIndexFromObjStruct demo_mem (Some demo_interp) (Tcl_NewStringObj ''att'')
              100 8 ''option'' TCL_EXACT = Some out
          \<and> status out = TCL_ERROR \<and> indexOut out = None"
    by auto
  from unique_abbreviation_accepted[where
      objPtr = "\<lparr>bytes = Some ''att'',
                 intrep = IndexType \<lparr>tablePtr = 100, offset = 8, index = 0\<rparr>\<rparr>"
      and tbl = 100 and offs = 8 and idx = 0 and mem = demo_mem and interp = "Some demo_interp"
      and msg = "''option''" and flags = TCL_EXACT] k
  have d: "Tcl_GetIndexFromObjStruct demo_mem (Some demo_interp)
        \<lparr>bytes = Some ''att'', intrep = IndexType \<lparr>tablePtr = 100, offset = 8, index = 0\<rparr>\<rparr>
        100 8 ''option'' TCL_EXACT
      = Some \<lparr>status = TCL_OK, indexOut = Some 0,
              objOut = \<lparr>bytes = Some ''att'',
                        intrep = IndexType \<lparr>tablePtr = 100, offset = 8, index = 0\<rparr>\<rparr>,
              interpOut = Some demo_interp, ckallocs = 0\<rparr>"
    by blast
  from h c e k a b d show ?thesis by blast
qed

theorem cached_abbreviation_passes_exact:
  "table_at demo_mem 100 8 [''attach'', ''detach'']
   \<and> ''att'' \<notin> set [''attach'', ''detach'']
   \<and> Tcl_GetIndexFromObjStruct demo_mem None (Tcl_NewStringObj ''att'') 100 8 ''option'' 0
       = Some \<lparr>status = TCL_OK, indexOut = Some 0,
               objOut = \<lparr>bytes = Some ''att'',
                         intrep = IndexType \<lparr>tablePtr = 100, offset = 8, index = 0\<rparr>\<rparr>,
               interpOut = None, ckallocs = 1\<rparr>
   \<and> TCL_EXACT AND TCL_EXACT \<noteq> 0
   \<and> Tcl_GetIndexFromObjStruct demo_mem None
         \<lparr>bytes = Some ''att'', intrep = IndexType \<lparr>tablePtr = 100, offset = 8, index = 0\<rparr>\<rparr>
         100 8 ''option'' TCL_EXACT
       = Some \<lparr>status = TCL_OK, indexOut = Some 0,
               objOut = \<lparr>bytes = Some ''att'',
                         intrep = IndexType \<lparr>tablePtr = 100, offset = 8, index = 0\<rparr>\<rparr>,
               interpOut = None, ckallocs = 0\<rparr>"
  by (simp add: lookup_eval)

subsection \<open>The cached index\<close>

text \<open>
  C3. A record whose table pointer and offset equal the arguments is answered from the
  record: the stored index comes back, the object and the interpreter stay as they are,
  nothing is allocated, and the memory that holds the table is not consulted (the
  equation holds for every memory). Hence a second call after a successful one returns
  the same index, for any memory, message and flags. A record for another table or
  offset is not used: status, index and message are those of an object with the same
  string and no record, and the old record is overwritten without a new allocation.
  \<open>Tcl_GetIndexFromObj\<close> is the same function at offset
  \<open>sizeof(char *)\<close>.
\<close>

theorem cache_keyed_by_table_identity:
  "(intrep objPtr = IndexType r \<and> tablePtr r = tbl \<and> offset r = offs \<longrightarrow>
      Tcl_GetIndexFromObjStruct mem interp objPtr tbl offs msg flags
        = Some \<lparr>status = TCL_OK, indexOut = Some (index r), objOut = objPtr,
                interpOut = interp, ckallocs = 0\<rparr>)
   \<and> (Tcl_GetIndexFromObjStruct mem interp objPtr tbl offs msg flags = Some out
        \<and> status out = TCL_OK \<longrightarrow>
      (\<exists>idx. indexOut out = Some idx
         \<and> intrep (objOut out) = IndexType \<lparr>tablePtr = tbl, offset = offs, index = idx\<rparr>)
      \<and> Tcl_GetIndexFromObjStruct mem' interp' (objOut out) tbl offs msg' flags'
        = Some \<lparr>status = TCL_OK, indexOut = indexOut out, objOut = objOut out,
                interpOut = interp', ckallocs = 0\<rparr>)
   \<and> (intrep objPtr = IndexType r \<and> (tablePtr r \<noteq> tbl \<or> offset r \<noteq> offs)
        \<and> Tcl_GetStringFromObj mem objPtr = Some (key, obj') \<longrightarrow>
      map_option (\<lambda>out. (status out, indexOut out, interpOut out))
          (Tcl_GetIndexFromObjStruct mem interp objPtr tbl offs msg flags)
        = map_option (\<lambda>out. (status out, indexOut out, interpOut out))
          (Tcl_GetIndexFromObjStruct mem interp \<lparr>bytes = Some key, intrep = NoType\<rparr>
             tbl offs msg flags)
      \<and> map_option ckallocs (Tcl_GetIndexFromObjStruct mem interp objPtr tbl offs msg flags)
        = map_option (\<lambda>out. 0)
            (Tcl_GetIndexFromObjStruct mem interp objPtr tbl offs msg flags))
   \<and> Tcl_GetIndexFromObj sizeof_ptr mem interp objPtr tbl msg flags
       = Tcl_GetIndexFromObjStruct mem interp objPtr tbl sizeof_ptr msg flags"
proof (intro conjI impI)
  assume "intrep objPtr = IndexType r \<and> tablePtr r = tbl \<and> offset r = offs"
  then have "cached_index objPtr tbl offs = Some (index r)" by (simp add: cached_index_def)
  from cached_call[OF this]
  show "Tcl_GetIndexFromObjStruct mem interp objPtr tbl offs msg flags
        = Some \<lparr>status = TCL_OK, indexOut = Some (index r), objOut = objPtr,
                interpOut = interp, ckallocs = 0\<rparr>" .
next
  assume "Tcl_GetIndexFromObjStruct mem interp objPtr tbl offs msg flags = Some out
        \<and> status out = TCL_OK"
  then obtain idx where i: "indexOut out = Some idx"
    "cached_index (objOut out) tbl offs = Some idx"
    using call_ok_cached by blast
  with cached_call[of "objOut out" tbl offs idx mem' interp' msg' flags']
  show "Tcl_GetIndexFromObjStruct mem' interp' (objOut out) tbl offs msg' flags'
        = Some \<lparr>status = TCL_OK, indexOut = indexOut out, objOut = objOut out,
                interpOut = interp', ckallocs = 0\<rparr>" by simp
  from i(2) obtain r' where "intrep (objOut out) = IndexType r'" "tablePtr r' = tbl"
    "offset r' = offs" "index r' = idx" by (auto simp: cached_index_Some)
  then have "intrep (objOut out) = IndexType \<lparr>tablePtr = tbl, offset = offs, index = idx\<rparr>"
    by simp
  with i(1) show "\<exists>idx. indexOut out = Some idx
         \<and> intrep (objOut out) = IndexType \<lparr>tablePtr = tbl, offset = offs, index = idx\<rparr>"
    by blast
next
  assume a: "intrep objPtr = IndexType r \<and> (tablePtr r \<noteq> tbl \<or> offset r \<noteq> offs)
        \<and> Tcl_GetStringFromObj mem objPtr = Some (key, obj')"
  then have n: "cached_index objPtr tbl offs = None" by (auto simp: cached_index_def)
  have n': "cached_index \<lparr>bytes = Some key, intrep = NoType\<rparr> tbl offs = None"
    by (simp add: cached_index_def)
  have g': "Tcl_GetStringFromObj mem \<lparr>bytes = Some key, intrep = NoType\<rparr>
      = Some (key, \<lparr>bytes = Some key, intrep = NoType\<rparr>)"
    by (simp add: Tcl_GetStringFromObj_def)
  from a have g: "Tcl_GetStringFromObj mem objPtr = Some (key, obj')" by simp
  from a GetString_bytes[OF g] have i: "intrep obj' = IndexType r" by simp
  show "map_option (\<lambda>out. (status out, indexOut out, interpOut out))
          (Tcl_GetIndexFromObjStruct mem interp objPtr tbl offs msg flags)
        = map_option (\<lambda>out. (status out, indexOut out, interpOut out))
          (Tcl_GetIndexFromObjStruct mem interp \<lparr>bytes = Some key, intrep = NoType\<rparr>
             tbl offs msg flags)"
    unfolding uncached_call[OF n g] uncached_call[OF n' g']
    by (auto simp: cache_rep_def report_error_def split: option.splits scan_result.splits)
  show "map_option ckallocs (Tcl_GetIndexFromObjStruct mem interp objPtr tbl offs msg flags)
        = map_option (\<lambda>out. 0)
            (Tcl_GetIndexFromObjStruct mem interp objPtr tbl offs msg flags)"
    unfolding uncached_call[OF n g] using i
    by (auto simp: cache_rep_def report_error_def split: option.splits scan_result.splits)
next
  show "Tcl_GetIndexFromObj sizeof_ptr mem interp objPtr tbl msg flags
       = Tcl_GetIndexFromObjStruct mem interp objPtr tbl sizeof_ptr msg flags"
    by (simp add: Tcl_GetIndexFromObj_def Tcl_GetIndexFromObjStruct_def split: option.splits)
qed

theorem cache_keyed_by_table_identity_witness:
  "intrep \<lparr>bytes = Some ''attach'', intrep = IndexType \<lparr>tablePtr = 100, offset = 8, index = 0\<rparr>\<rparr>
       = IndexType \<lparr>tablePtr = 100, offset = 8, index = 0\<rparr>
   \<and> Tcl_GetIndexFromObjStruct demo_mem None
        \<lparr>bytes = Some ''attach'', intrep = IndexType \<lparr>tablePtr = 100, offset = 8, index = 0\<rparr>\<rparr>
        100 8 ''option'' 0
      = Some \<lparr>status = TCL_OK, indexOut = Some 0,
              objOut = \<lparr>bytes = Some ''attach'',
                        intrep = IndexType \<lparr>tablePtr = 100, offset = 8, index = 0\<rparr>\<rparr>,
              interpOut = None, ckallocs = 0\<rparr>
   \<and> Tcl_GetIndexFromObjStruct (\<lambda>a. None) (Some demo_interp)
        \<lparr>bytes = Some ''attach'', intrep = IndexType \<lparr>tablePtr = 100, offset = 8, index = 0\<rparr>\<rparr>
        100 8 ''switch'' TCL_EXACT
      = Some \<lparr>status = TCL_OK, indexOut = Some 0,
              objOut = \<lparr>bytes = Some ''attach'',
                        intrep = IndexType \<lparr>tablePtr = 100, offset = 8, index = 0\<rparr>\<rparr>,
              interpOut = Some demo_interp, ckallocs = 0\<rparr>
   \<and> table_at demo_mem 200 8 [''detach'', ''attach'']
   \<and> Tcl_GetStringFromObj demo_mem
        \<lparr>bytes = Some ''attach'', intrep = IndexType \<lparr>tablePtr = 100, offset = 8, index = 0\<rparr>\<rparr>
      = Some (''attach'',
          \<lparr>bytes = Some ''attach'', intrep = IndexType \<lparr>tablePtr = 100, offset = 8, index = 0\<rparr>\<rparr>)
   \<and> map_option (\<lambda>out. (status out, indexOut out, interpOut out))
        (Tcl_GetIndexFromObjStruct demo_mem None
          \<lparr>bytes = Some ''attach'', intrep = IndexType \<lparr>tablePtr = 100, offset = 8, index = 0\<rparr>\<rparr>
          200 8 ''option'' 0)
      = Some (TCL_OK, Some 1, None)
   \<and> map_option (\<lambda>out. (status out, indexOut out, interpOut out))
        (Tcl_GetIndexFromObjStruct demo_mem None \<lparr>bytes = Some ''attach'', intrep = NoType\<rparr>
          200 8 ''option'' 0)
      = Some (TCL_OK, Some 1, None)
   \<and> map_option ckallocs
        (Tcl_GetIndexFromObjStruct demo_mem None
          \<lparr>bytes = Some ''attach'', intrep = IndexType \<lparr>tablePtr = 100, offset = 8, index = 0\<rparr>\<rparr>
          200 8 ''option'' 0)
      = Some 0
   \<and> Tcl_GetIndexFromObj 8 demo_mem None
        \<lparr>bytes = Some ''attach'', intrep = IndexType \<lparr>tablePtr = 100, offset = 8, index = 0\<rparr>\<rparr>
        200 ''option'' 0
      = Tcl_GetIndexFromObjStruct demo_mem None
        \<lparr>bytes = Some ''attach'', intrep = IndexType \<lparr>tablePtr = 100, offset = 8, index = 0\<rparr>\<rparr>
        200 8 ''option'' 0"
  using
    cache_keyed_by_table_identity[where
      objPtr = "\<lparr>bytes = Some ''attach'',
                 intrep = IndexType \<lparr>tablePtr = 100, offset = 8, index = 0\<rparr>\<rparr>"
      and r = "\<lparr>tablePtr = 100, offset = 8, index = 0\<rparr>" and tbl = 100 and offs = 8
      and mem = demo_mem and interp = None and msg = "''option''" and flags = 0
      and out = "\<lparr>status = TCL_OK, indexOut = Some 0,
              objOut = \<lparr>bytes = Some ''attach'',
                        intrep = IndexType \<lparr>tablePtr = 100, offset = 8, index = 0\<rparr>\<rparr>,
              interpOut = None, ckallocs = 0\<rparr>"
      and mem' = "\<lambda>a. None" and interp' = "Some demo_interp" and msg' = "''switch''"
      and flags' = TCL_EXACT and sizeof_ptr = 8]
    cache_keyed_by_table_identity[where
      objPtr = "\<lparr>bytes = Some ''attach'',
                 intrep = IndexType \<lparr>tablePtr = 100, offset = 8, index = 0\<rparr>\<rparr>"
      and r = "\<lparr>tablePtr = 100, offset = 8, index = 0\<rparr>" and tbl = 200 and offs = 8
      and mem = demo_mem and interp = None and msg = "''option''" and flags = 0
      and key = "''attach''"
      and obj' = "\<lparr>bytes = Some ''attach'',
                 intrep = IndexType \<lparr>tablePtr = 100, offset = 8, index = 0\<rparr>\<rparr>"
      and sizeof_ptr = 8]
  by (simp add: lookup_eval)

subsection \<open>The error message\<close>

text \<open>
  C4, with the word chosen as the code chooses it. For a table with at least one entry,
  a failing call with an interpreter leaves the message \<open>ambiguous\<close> or
  \<open>bad\<close>, the label, the quoted string, \<open>: must be\<close> and the
  entries in table order: the first one bare, each one between the first and the last
  after a comma and a space, the last one of two after \<open> or \<close> and the last
  one of three or more after \<open>, or \<close>. It says \<open>ambiguous\<close>
  exactly when the string is not empty and abbreviates more than one entry, and
  \<open>bad\<close> otherwise: when it abbreviates none, when it is empty, and when it
  abbreviates exactly one entry and \<open>TCL_EXACT\<close> is set.
\<close>

theorem error_message_text:
  assumes "table_at mem tbl offs (e0 # rest)"
    and "Tcl_GetStringFromObj mem objPtr = Some (key, obj1)"
    and "Tcl_GetIndexFromObjStruct mem (Some ip) objPtr tbl offs msg flags = Some out"
    and "status out = TCL_ERROR"
  shows \<open>interpOut out = Some (ip\<lparr>objResult :=
            (if key \<noteq> [] \<and> 1 < length (filter (strict_prefix key) (e0 # rest))
             then ''ambiguous '' else ''bad '')
            @ msg @ '' "'' @ key @ ''": must be '' @ e0
            @ (case rest of [] \<Rightarrow> []
               | _ \<Rightarrow> concat (map (\<lambda>e. '', '' @ e) (butlast rest))
                     @ (if 1 < length rest then '', or '' else '' or '') @ last rest)\<rparr>)
         \<and> (key \<noteq> [] \<longrightarrow> key \<notin> set (e0 # rest))
         \<and> (key \<noteq> [] \<and> length (filter (strict_prefix key) (e0 # rest)) = 1 \<longrightarrow>
              flags AND TCL_EXACT \<noteq> 0)\<close>
proof -
  from call_error_uncached[OF assms(3,4)] have n: "cached_index objPtr tbl offs = None" .
  note u = uncached_call[OF n assms(2), of "Some ip" msg flags]
  note re = report_error_table[OF assms(1), of ip obj1 msg key]
  show ?thesis
  proof (cases "key = []")
    case True
    with u re[of 0] assms(3) show ?thesis by (auto simp: Tcl_SetObjResult_def)
  next
    case False
    have k: "key \<notin> set (e0 # rest)"
    proof
      assume "key \<in> set (e0 # rest)"
      from scan_table_found[OF assms(1) this, of "- 1" 0] u False assms(3,4)
      show False by (auto simp: cache_rep_def)
    qed
    from scan_table_absent[OF assms(1) k] obtain idx where
      s: "scan_table mem key offs tbl 0 (- 1) 0
          = Some (Scanned idx (int (length (filter (strict_prefix key) (e0 # rest)))))"
      by blast
    from u s False assms(3,4) have
      f: "flags AND TCL_EXACT \<noteq> 0 \<or> length (filter (strict_prefix key) (e0 # rest)) \<noteq> 1"
      and r: "report_error mem (Some ip) obj1 tbl offs msg key
               (int (length (filter (strict_prefix key) (e0 # rest)))) = Some out"
      by (auto simp: cache_rep_def split: if_splits)
    from r re[of "int (length (filter (strict_prefix key) (e0 # rest)))"] False
    have "interpOut out = Some (ip\<lparr>objResult :=
            (if key \<noteq> [] \<and> 1 < length (filter (strict_prefix key) (e0 # rest))
             then ''ambiguous '' else ''bad '')
            @ msg @ [CHR '' '', CHR 0x22] @ key @ (CHR 0x22 # '': must be '') @ e0
            @ (case rest of [] \<Rightarrow> []
               | _ \<Rightarrow> concat (map (\<lambda>e. '', '' @ e) (butlast rest))
                     @ (if 1 < length rest then '', or '' else '' or '') @ last rest)\<rparr>)"
      by (auto simp: Tcl_SetObjResult_def)
    with k f False show ?thesis by auto
  qed
qed

theorem error_message_text_witness:
  \<open>table_at demo_mem 400 8 (''start'' # [''stop'', ''status''])
   \<and> Tcl_GetStringFromObj demo_mem (Tcl_NewStringObj ''st'')
       = Some (''st'', Tcl_NewStringObj ''st'')
   \<and> Tcl_GetIndexFromObjStruct demo_mem (Some demo_interp) (Tcl_NewStringObj ''st'') 400 8
         ''option'' 0
       = Some \<lparr>status = TCL_ERROR, indexOut = None, objOut = Tcl_NewStringObj ''st'',
           interpOut = Some (demo_interp\<lparr>objResult :=
             ''ambiguous option "st": must be start, stop, or status''\<rparr>),
           ckallocs = 0\<rparr>
   \<and> length (filter (strict_prefix ''st'') (''start'' # [''stop'', ''status''])) = 3
   \<and> ''st'' \<notin> set (''start'' # [''stop'', ''status''])\<close>
proof -
  have h1: "table_at demo_mem 400 8 (''start'' # [''stop'', ''status''])"
    by (simp add: demo_mem_def NEXT_ENTRY_def)
  have h2: "Tcl_GetStringFromObj demo_mem (Tcl_NewStringObj ''st'')
       = Some (''st'', Tcl_NewStringObj ''st'')"
    by (simp add: Tcl_GetStringFromObj_def Tcl_NewStringObj_def)
  obtain out where h3: "Tcl_GetIndexFromObjStruct demo_mem (Some demo_interp)
      (Tcl_NewStringObj ''st'') 400 8 ''option'' 0 = Some out"
    and h4: "status out = TCL_ERROR" and o: "objOut out = Tcl_NewStringObj ''st''"
    and i: "indexOut out = None" and a: "ckallocs out = 0"
    by (simp add: lookup_eval)
  from error_message_text[OF h1 h2 h3 h4]
  have \<open>interpOut out = Some (demo_interp\<lparr>objResult :=
             ''ambiguous option "st": must be start, stop, or status''\<rparr>)\<close>
    and "''st'' \<notin> set (''start'' # [''stop'', ''status''])"
    by simp_all
  with h1 h2 h3 h4 o i a show ?thesis by (cases out) simp
qed

theorem exact_flag_says_bad:
  \<open>table_at demo_mem 100 8 [''attach'', ''detach'']
   \<and> length (filter (strict_prefix ''att'') [''attach'', ''detach'']) = 1
   \<and> Tcl_GetIndexFromObjStruct demo_mem (Some demo_interp) (Tcl_NewStringObj ''att'') 100 8
         ''option'' TCL_EXACT
       = Some \<lparr>status = TCL_ERROR, indexOut = None, objOut = Tcl_NewStringObj ''att'',
           interpOut = Some (demo_interp\<lparr>objResult :=
             ''bad option "att": must be attach or detach''\<rparr>),
           ckallocs = 0\<rparr>\<close>
  by (simp add: lookup_eval)

text \<open>
  Why the table must have an entry: from an empty table the error branch goes on to
  the address after the sentinel (line 276), and what it finds there ends up in the
  message.
\<close>

lemma empty_table_reads_past_sentinel:
  \<open>table_at demo_mem 292 8 []
   \<and> Tcl_GetIndexFromObjStruct demo_mem (Some demo_interp) (Tcl_NewStringObj ''x'') 292 8
         ''option'' 0
       = Some \<lparr>status = TCL_ERROR, indexOut = None, objOut = Tcl_NewStringObj ''x'',
           interpOut = Some (demo_interp\<lparr>objResult := ''bad option "x": must be  or ''\<rparr>),
           ckallocs = 0\<rparr>\<close>
  by (simp add: lookup_eval)

subsection \<open>The string form of an index object\<close>

text \<open>
  \<open>UpdateStringOfIndex\<close> sets the string form to the table entry at the stored
  index, in full, whenever the byte displacement \<open>offset * index\<close> of the record
  fits an \<open>int\<close>. In particular, after a successful lookup of any string, also an
  abbreviation, the lookup returns the index of an entry of the table, and
  \<open>UpdateStringOfIndex\<close> renders that entry when the displacement to it fits an
  \<open>int\<close>. The instance below is the table \<open>attach\<close>, \<open>detach\<close>: the lookup of
  \<open>att\<close> gives index 0 and the string form \<open>attach\<close>.
\<close>

theorem stringify_gives_full_entry:
  "(intrep objPtr = IndexType r \<and> table_at mem (tablePtr r) (offset r) es
      \<and> 0 \<le> index r \<and> index r < int (length es)
      \<and> fits_int (offset r * index r) \<longrightarrow>
    UpdateStringOfIndex mem objPtr = Some (objPtr\<lparr>bytes := Some (es ! nat (index r))\<rparr>))
   \<and> (table_at mem tbl offs es \<and> index_rep_valid mem objV
      \<and> Tcl_GetIndexFromObjStruct mem interp objV tbl offs msg flags = Some out
      \<and> status out = TCL_OK \<longrightarrow>
    (\<exists>j<length es. indexOut out = Some (int j)
       \<and> (fits_int (offs * int j) \<longrightarrow>
          UpdateStringOfIndex mem (objOut out)
            = Some ((objOut out)\<lparr>bytes := Some (es ! j)\<rparr>))))"
proof (intro conjI impI)
  assume a: "intrep objPtr = IndexType r \<and> table_at mem (tablePtr r) (offset r) es
      \<and> 0 \<le> index r \<and> index r < int (length es)
      \<and> fits_int (offset r * index r)"
  then have n: "nat (index r) < length es" by linarith
  from a have i: "int (nat (index r)) = index r" by simp
  from a have "fits_int (offset r * int (nat (index r)))" unfolding i by simp
  with a n have "STRING_AT mem (tablePtr r) (offset r) (int (nat (index r)))
      = Some (es ! nat (index r))"
    by (intro table_at_nth) simp_all
  then have "EXPAND_OF mem r = Some (es ! nat (index r))"
    unfolding i by (simp add: EXPAND_OF_def)
  with a show "UpdateStringOfIndex mem objPtr
      = Some (objPtr\<lparr>bytes := Some (es ! nat (index r))\<rparr>)"
    by (simp add: UpdateStringOfIndex_def)
next
  assume a: "table_at mem tbl offs es \<and> index_rep_valid mem objV
      \<and> Tcl_GetIndexFromObjStruct mem interp objV tbl offs msg flags = Some out
      \<and> status out = TCL_OK"
  then obtain j where j: "j < length es" "indexOut out = Some (int j)"
    using call_ok_in_table by blast
  from a call_ok_cached[of mem interp objV tbl offs msg flags out] j
  have "cached_index (objOut out) tbl offs = Some (int j)" by auto
  then obtain r where r: "intrep (objOut out) = IndexType r" "tablePtr r = tbl"
    "offset r = offs" "index r = int j" by (auto simp: cached_index_Some)
  have "UpdateStringOfIndex mem (objOut out) = Some ((objOut out)\<lparr>bytes := Some (es ! j)\<rparr>)"
    if f: "fits_int (offs * int j)"
  proof -
    from a j f have "STRING_AT mem tbl offs (int j) = Some (es ! j)"
      by (intro table_at_nth) simp_all
    with r show ?thesis by (simp add: UpdateStringOfIndex_def EXPAND_OF_def)
  qed
  with j show "\<exists>j<length es. indexOut out = Some (int j)
       \<and> (fits_int (offs * int j) \<longrightarrow>
          UpdateStringOfIndex mem (objOut out)
            = Some ((objOut out)\<lparr>bytes := Some (es ! j)\<rparr>))"
    by blast
qed

theorem stringify_gives_full_entry_witness:
  "intrep \<lparr>bytes = Some ''det'', intrep = IndexType \<lparr>tablePtr = 100, offset = 8, index = 1\<rparr>\<rparr>
      = IndexType \<lparr>tablePtr = 100, offset = 8, index = 1\<rparr>
   \<and> table_at demo_mem 100 8 [''attach'', ''detach'']
   \<and> fits_int (8 * 1)
   \<and> UpdateStringOfIndex demo_mem
        \<lparr>bytes = Some ''det'', intrep = IndexType \<lparr>tablePtr = 100, offset = 8, index = 1\<rparr>\<rparr>
      = Some \<lparr>bytes = Some ''detach'',
              intrep = IndexType \<lparr>tablePtr = 100, offset = 8, index = 1\<rparr>\<rparr>
   \<and> index_rep_valid demo_mem (Tcl_NewStringObj ''att'')
   \<and> Tcl_GetIndexFromObjStruct demo_mem None (Tcl_NewStringObj ''att'') 100 8 ''option'' 0
      = Some \<lparr>status = TCL_OK, indexOut = Some 0,
              objOut = \<lparr>bytes = Some ''att'',
                        intrep = IndexType \<lparr>tablePtr = 100, offset = 8, index = 0\<rparr>\<rparr>,
              interpOut = None, ckallocs = 1\<rparr>
   \<and> (\<exists>j<length [''attach'', ''detach''].
         Some (0::int) = Some (int j)
         \<and> fits_int (8 * int j)
         \<and> UpdateStringOfIndex demo_mem
             \<lparr>bytes = Some ''att'', intrep = IndexType \<lparr>tablePtr = 100, offset = 8, index = 0\<rparr>\<rparr>
           = Some \<lparr>bytes = Some ([''attach'', ''detach''] ! j),
                   intrep = IndexType \<lparr>tablePtr = 100, offset = 8, index = 0\<rparr>\<rparr>)
   \<and> UpdateStringOfIndex demo_mem
        \<lparr>bytes = Some ''att'', intrep = IndexType \<lparr>tablePtr = 100, offset = 8, index = 0\<rparr>\<rparr>
      = Some \<lparr>bytes = Some ''attach'',
              intrep = IndexType \<lparr>tablePtr = 100, offset = 8, index = 0\<rparr>\<rparr>"
proof -
  let ?r = "\<lparr>tablePtr = 100, offset = 8, index = 1\<rparr>"
  let ?obj = "\<lparr>bytes = Some ''det'', intrep = IndexType ?r\<rparr>"
  let ?r' = "\<lparr>tablePtr = 100, offset = 8, index = 0\<rparr>"
  let ?obj' = "\<lparr>bytes = Some ''att'', intrep = IndexType ?r'\<rparr>"
  let ?out = "\<lparr>status = TCL_OK, indexOut = Some 0, objOut = ?obj',
               interpOut = None, ckallocs = 1\<rparr>"
  have h1: "table_at demo_mem 100 8 [''attach'', ''detach'']"
    by (simp add: demo_mem_def NEXT_ENTRY_def)
  have h2: "index_rep_valid demo_mem (Tcl_NewStringObj ''att'')"
    by (simp add: index_rep_valid_def Tcl_NewStringObj_def)
  have h3: "Tcl_GetIndexFromObjStruct demo_mem None (Tcl_NewStringObj ''att'') 100 8 ''option'' 0
      = Some ?out"
    by (simp add: lookup_eval)
  have h4: "fits_int (8 * 1)"
    by (simp add: fits_int_def)
  note t = stringify_gives_full_entry[where objPtr = ?obj and r = ?r and mem = demo_mem
      and es = "[''attach'', ''detach'']" and tbl = 100 and offs = 8
      and objV = "Tcl_NewStringObj ''att''" and interp = None and msg = "''option''"
      and flags = 0 and out = ?out]
  from t h1 h4 have c1: "UpdateStringOfIndex demo_mem ?obj
      = Some \<lparr>bytes = Some ''detach'', intrep = IndexType ?r\<rparr>"
    by simp
  from t h1 h2 h3 obtain j where j: "j < length [''attach'', ''detach'']"
      "Some (0::int) = Some (int j)"
      "fits_int (8 * int j) \<longrightarrow> UpdateStringOfIndex demo_mem ?obj'
         = Some \<lparr>bytes = Some ([''attach'', ''detach''] ! j), intrep = IndexType ?r'\<rparr>"
    by auto
  from j(2) have z: "j = 0" by simp
  then have f: "fits_int (8 * int j)"
    by (simp add: fits_int_def)
  with j have u: "UpdateStringOfIndex demo_mem ?obj'
         = Some \<lparr>bytes = Some ([''attach'', ''detach''] ! j), intrep = IndexType ?r'\<rparr>"
    by blast
  with j f have c2: "\<exists>j<length [''attach'', ''detach''].
         Some (0::int) = Some (int j)
         \<and> fits_int (8 * int j)
         \<and> UpdateStringOfIndex demo_mem ?obj'
           = Some \<lparr>bytes = Some ([''attach'', ''detach''] ! j), intrep = IndexType ?r'\<rparr>"
    by blast
  from u z have c3: "UpdateStringOfIndex demo_mem ?obj'
      = Some \<lparr>bytes = Some ''attach'', intrep = IndexType ?r'\<rparr>"
    by simp
  from h1 h2 h3 h4 c1 c2 c3 show ?thesis by simp
qed

text \<open>
  Beyond that range the lookup and \<open>UpdateStringOfIndex\<close> part ways. The table at
  \<open>2^31\<close> holds \<open>alpha\<close>, \<open>beta\<close> and \<open>gamma\<close>, \<open>2^30\<close> bytes apart. The
  lookup of \<open>gam\<close> steps from entry to entry with \<open>NEXT_ENTRY\<close>, finds \<open>gamma\<close>
  and stores index 2 in the object.
\<close>

lemma wide_lookup_stores_index:
  "index_rep_valid wide_mem (Tcl_NewStringObj ''gam'')
   \<and> Tcl_GetIndexFromObjStruct wide_mem None (Tcl_NewStringObj ''gam'')
        2147483648 1073741824 ''option'' 0
      = Some \<lparr>status = TCL_OK, indexOut = Some 2,
              objOut = \<lparr>bytes = Some ''gam'',
                        intrep = IndexType \<lparr>tablePtr = 2147483648, offset = 1073741824,
                                            index = 2\<rparr>\<rparr>,
              interpOut = None, ckallocs = 1\<rparr>"
proof -
  have h2: "index_rep_valid wide_mem (Tcl_NewStringObj ''gam'')"
    by (simp add: index_rep_valid_def Tcl_NewStringObj_def)
  have h3: "Tcl_GetIndexFromObjStruct wide_mem None (Tcl_NewStringObj ''gam'')
        2147483648 1073741824 ''option'' 0
      = Some \<lparr>status = TCL_OK, indexOut = Some 2,
              objOut = \<lparr>bytes = Some ''gam'',
                        intrep = IndexType \<lparr>tablePtr = 2147483648, offset = 1073741824,
                                            index = 2\<rparr>\<rparr>,
              interpOut = None, ckallocs = 1\<rparr>"
    by (simp add: lookup_eval wide_mem_def)
  from h2 h3 show ?thesis by simp
qed

text \<open>
  C5. \<open>UpdateStringOfIndex\<close> is to render the table entry at the stored index for
  every object that carries an index record. It does not for the object the lookup
  above returns: entry 2 of the table is \<open>gamma\<close>, but \<open>EXPAND_OF\<close> multiplies
  \<open>2^30\<close> by 2 in \<open>int\<close> arithmetic, where the product is \<open>-2^31\<close>, and
  \<open>UpdateStringOfIndex\<close> renders the string found \<open>2^31\<close> bytes before the
  table, \<open>other\<close>.
\<close>

theorem stringify_wraps_beyond_int:
  "table_at wide_mem 2147483648 1073741824 [''alpha'', ''beta'', ''gamma'']
   \<and> [''alpha'', ''beta'', ''gamma''] ! 2 = ''gamma''
   \<and> UpdateStringOfIndex wide_mem
        \<lparr>bytes = Some ''gam'',
         intrep = IndexType \<lparr>tablePtr = 2147483648, offset = 1073741824, index = 2\<rparr>\<rparr>
      = Some \<lparr>bytes = Some ''other'',
              intrep = IndexType \<lparr>tablePtr = 2147483648, offset = 1073741824, index = 2\<rparr>\<rparr>"
proof -
  have h1: "table_at wide_mem 2147483648 1073741824 [''alpha'', ''beta'', ''gamma'']"
    by (simp add: wide_mem_def NEXT_ENTRY_def)
  have h4: "UpdateStringOfIndex wide_mem
        \<lparr>bytes = Some ''gam'',
         intrep = IndexType \<lparr>tablePtr = 2147483648, offset = 1073741824, index = 2\<rparr>\<rparr>
      = Some \<lparr>bytes = Some ''other'',
              intrep = IndexType \<lparr>tablePtr = 2147483648, offset = 1073741824, index = 2\<rparr>\<rparr>"
    by (simp add: UpdateStringOfIndex_def EXPAND_OF_def STRING_AT_def int_times_def wide_mem_def)
  from h1 h4 show ?thesis by simp
qed

subsection \<open>The empty string\<close>

text \<open>
  C6. An object whose string form is empty never matches: the call returns
  \<open>TCL_ERROR\<close>, whatever the memory at the table address holds (no entry is
  read before the test), and with an interpreter and a table of at least one entry the
  message starts with \<open>bad\<close>. An object that already carries an index
  record is taken to carry a sound one, which rules out an empty string form.
\<close>

theorem empty_string_rejected:
  assumes "Tcl_GetStringFromObj mem objPtr = Some ([], obj1)" and "index_rep_valid mem objPtr"
  shows \<open>Tcl_GetIndexFromObjStruct mem None objPtr tbl offs msg flags
        = Some \<lparr>status = TCL_ERROR, indexOut = None, objOut = obj1, interpOut = None,
                ckallocs = 0\<rparr>
     \<and> (table_at mem tbl offs (e0 # rest) \<longrightarrow>
          Tcl_GetIndexFromObjStruct mem (Some ip) objPtr tbl offs msg flags
            = Some \<lparr>status = TCL_ERROR, indexOut = None, objOut = obj1,
                interpOut = Some (ip\<lparr>objResult :=
                  ''bad '' @ msg @ '' "": must be '' @ e0
                  @ (case rest of [] \<Rightarrow> []
                     | _ \<Rightarrow> concat (map (\<lambda>e. '', '' @ e) (butlast rest))
                           @ (if 1 < length rest then '', or '' else '' or '') @ last rest)\<rparr>),
                ckallocs = 0\<rparr>)\<close>
proof -
  have n: "cached_index objPtr tbl offs = None"
  proof (cases "cached_index objPtr tbl offs")
    case (Some idx)
    from valid_cached_scan[OF assms(2) Some assms(1)] show ?thesis by simp
  qed simp
  note u = uncached_call[OF n assms(1), of _ msg flags]
  show ?thesis
    by (auto simp: u report_error_no_interp report_error_table Tcl_SetObjResult_def)
qed

theorem empty_string_rejected_witness:
  \<open>Tcl_GetStringFromObj demo_mem (Tcl_NewStringObj '''') = Some ([], Tcl_NewStringObj '''')
   \<and> index_rep_valid demo_mem (Tcl_NewStringObj '''')
   \<and> Tcl_GetIndexFromObjStruct demo_mem None (Tcl_NewStringObj '''') 100 8 ''option'' 0
        = Some \<lparr>status = TCL_ERROR, indexOut = None, objOut = Tcl_NewStringObj '''',
                interpOut = None, ckallocs = 0\<rparr>
   \<and> table_at demo_mem 100 8 (''attach'' # [''detach''])
   \<and> Tcl_GetIndexFromObjStruct demo_mem (Some demo_interp) (Tcl_NewStringObj '''') 100 8
          ''option'' 0
        = Some \<lparr>status = TCL_ERROR, indexOut = None, objOut = Tcl_NewStringObj '''',
                interpOut = Some (demo_interp\<lparr>objResult :=
                  ''bad option "": must be attach or detach''\<rparr>),
                ckallocs = 0\<rparr>\<close>
proof -
  have h1: "Tcl_GetStringFromObj demo_mem (Tcl_NewStringObj '''')
      = Some ([], Tcl_NewStringObj '''')"
    by (simp add: Tcl_GetStringFromObj_def Tcl_NewStringObj_def)
  have h2: "index_rep_valid demo_mem (Tcl_NewStringObj '''')"
    by (simp add: index_rep_valid_def Tcl_NewStringObj_def)
  have h3: "table_at demo_mem 100 8 (''attach'' # [''detach''])"
    by (simp add: demo_mem_def NEXT_ENTRY_def)
  from empty_string_rejected[OF h1 h2, of 100 8 "''option''" 0 "''attach''" "[''detach'']"
      demo_interp] h1 h2 h3
  show ?thesis by simp
qed

subsection \<open>What a failing lookup leaves behind\<close>

text \<open>
  C10, with the string form that the lookup computes. A failing call leaves the type
  and the cached record of the object as they were, stores no index and allocates
  nothing. The object itself is unchanged when it had a string form; otherwise the
  string form the lookup computed is now stored in it, and that is the only change. The
  interpreter is changed in its result only, and not at all when it is NULL.
\<close>

theorem failed_lookup_keeps_object:
  assumes "Tcl_GetIndexFromObjStruct mem interp objPtr tbl offs msg flags = Some out"
    and "status out = TCL_ERROR"
  shows "intrep (objOut out) = intrep objPtr
     \<and> (\<exists>key. Tcl_GetStringFromObj mem objPtr = Some (key, objOut out)
              \<and> objOut out = objPtr\<lparr>bytes := Some key\<rparr>)
     \<and> (bytes objPtr \<noteq> None \<longrightarrow> objOut out = objPtr)
     \<and> indexOut out = None \<and> ckallocs out = 0
     \<and> (case interp of
          None \<Rightarrow> interpOut out = None
        | Some ip \<Rightarrow> \<exists>text. interpOut out = Some (ip\<lparr>objResult := text\<rparr>))"
proof -
  from call_error_uncached[OF assms] have n: "cached_index objPtr tbl offs = None" .
  from call_has_string[OF assms(1) n] obtain key obj1 where
    g: "Tcl_GetStringFromObj mem objPtr = Some (key, obj1)" by blast
  from assms uncached_call[OF n g, of interp msg flags]
  obtain numAbbrev where r: "report_error mem interp obj1 tbl offs msg key numAbbrev = Some out"
    by (auto simp: cache_rep_def split: if_splits option.splits scan_result.splits)
  from report_error_status[OF r] GetString_bytes[OF g] g
  show ?thesis
    by (auto simp: Tcl_GetStringFromObj_def split: option.splits)
qed

theorem failed_lookup_keeps_object_witness:
  \<open>Tcl_GetIndexFromObjStruct demo_mem (Some demo_interp) (Tcl_NewStringObj ''tach'') 100 8
       ''option'' 0
     = Some \<lparr>status = TCL_ERROR, indexOut = None, objOut = Tcl_NewStringObj ''tach'',
         interpOut = Some (demo_interp\<lparr>objResult :=
           ''bad option "tach": must be attach or detach''\<rparr>),
         ckallocs = 0\<rparr>
   \<and> intrep (Tcl_NewStringObj ''tach'') = NoType
   \<and> bytes (Tcl_NewStringObj ''tach'') \<noteq> None
   \<and> Tcl_GetStringFromObj demo_mem (Tcl_NewStringObj ''tach'')
       = Some (''tach'', Tcl_NewStringObj ''tach'')\<close>
proof -
  have h1: \<open>Tcl_GetIndexFromObjStruct demo_mem (Some demo_interp) (Tcl_NewStringObj ''tach'')
       100 8 ''option'' 0
     = Some \<lparr>status = TCL_ERROR, indexOut = None, objOut = Tcl_NewStringObj ''tach'',
         interpOut = Some (demo_interp\<lparr>objResult :=
           ''bad option "tach": must be attach or detach''\<rparr>),
         ckallocs = 0\<rparr>\<close>
    by (simp add: lookup_eval)
  from failed_lookup_keeps_object[OF h1] h1
  show ?thesis by (simp add: Tcl_NewStringObj_def Tcl_GetStringFromObj_def)
qed

theorem failed_lookup_writes_string:
  "bytes \<lparr>bytes = None, intrep = OtherType ''42''\<rparr> = None
   \<and> Tcl_GetIndexFromObjStruct demo_mem None \<lparr>bytes = None, intrep = OtherType ''42''\<rparr>
        100 8 ''option'' 0
      = Some \<lparr>status = TCL_ERROR, indexOut = None,
              objOut = \<lparr>bytes = Some ''42'', intrep = OtherType ''42''\<rparr>,
              interpOut = None, ckallocs = 0\<rparr>
   \<and> bytes \<lparr>bytes = None, intrep = IndexType \<lparr>tablePtr = 100, offset = 8, index = 0\<rparr>\<rparr> = None
   \<and> Tcl_GetIndexFromObjStruct demo_mem None
        \<lparr>bytes = None, intrep = IndexType \<lparr>tablePtr = 100, offset = 8, index = 0\<rparr>\<rparr>
        400 8 ''option'' 0
      = Some \<lparr>status = TCL_ERROR, indexOut = None,
              objOut = \<lparr>bytes = Some ''attach'',
                        intrep = IndexType \<lparr>tablePtr = 100, offset = 8, index = 0\<rparr>\<rparr>,
              interpOut = None, ckallocs = 0\<rparr>"
  by (simp add: lookup_eval)

section \<open>Properties of Tcl_WrongNumArgs\<close>

subsection \<open>The two loops over the arguments\<close>

declare objv_loop.simps [simp del] source_loop.simps [simp del]

lemma array_read_append:
  "array_read (pre @ x # post) (int (length pre)) = Some x"
  by (simp add: array_read_def)

lemma objv_loop_done:
  "objc \<le> i \<Longrightarrow> objv_loop cfg mem objv objc message i isFirst objPtr = Some objPtr"
  by (subst objv_loop.simps) simp

lemma objv_loop_rest:
  "list_all2 (\<lambda>ob t. entry_text cfg mem False ob = Some t) post ts \<Longrightarrow>
   objv_loop cfg mem (pre @ post) (int (length (pre @ post))) message (int (length pre)) False
     objPtr
   = Some (objPtr @ (if message \<noteq> None then concat (map (\<lambda>t. t @ '' '') ts)
                     else butlast (concat (map (\<lambda>t. t @ '' '') ts))))"
proof (induction post arbitrary: pre ts objPtr)
  case Nil
  then show ?case by (simp add: objv_loop_done)
next
  case (Cons ob post)
  from Cons.prems obtain t ts' where ts: "ts = t # ts'"
    and t: "entry_text cfg mem False ob = Some t"
    and r: "list_all2 (\<lambda>ob t. entry_text cfg mem False ob = Some t) post ts'"
    by (auto simp: list_all2_Cons1)
  from Cons.IH[OF r, of "pre @ [ob]"]
  have ih: "\<And>objPtr. objv_loop cfg mem (pre @ ob # post) (int (length (pre @ ob # post))) message
       (int (length pre) + 1) False objPtr
     = Some (objPtr @ (if message \<noteq> None then concat (map (\<lambda>t. t @ '' '') ts')
                     else butlast (concat (map (\<lambda>t. t @ '' '') ts'))))"
    by (simp add: add.commute)
  have l: "length ts' = length post" using r by (simp add: list_all2_lengthD)
  show ?case
  proof (cases post)
    case Nil
    with l have "ts' = []" by simp
    with Nil ts t ih show ?thesis
      by (subst objv_loop.simps) (simp add: array_read_append butlast_append)
  next
    case (Cons ob' post')
    with l obtain t' ts'' where "ts' = t' # ts''" by (cases ts') auto
    with Cons ts t ih show ?thesis
      by (subst objv_loop.simps) (simp add: array_read_append butlast_append)
  qed
qed

lemma objv_loop_texts:
  assumes "entry_text cfg mem isFirst ob = Some t"
    and "list_all2 (\<lambda>ob t. entry_text cfg mem False ob = Some t) obs ts"
  shows "objv_loop cfg mem (ob # obs) (int (length (ob # obs))) message 0 isFirst objPtr
   = Some (objPtr @ (if message \<noteq> None then concat (map (\<lambda>t. t @ '' '') (t # ts))
                     else butlast (concat (map (\<lambda>t. t @ '' '') (t # ts)))))"
proof -
  from objv_loop_rest[OF assms(2), of "[ob]" message]
  have r: "\<And>objPtr. objv_loop cfg mem (ob # obs) (int (length (ob # obs))) message 1 False objPtr
     = Some (objPtr @ (if message \<noteq> None then concat (map (\<lambda>t. t @ '' '') ts)
                     else butlast (concat (map (\<lambda>t. t @ '' '') ts))))"
    by simp
  have l: "length ts = length obs" using assms(2) by (simp add: list_all2_lengthD)
  show ?thesis
  proof (cases obs)
    case Nil
    with l have "ts = []" by simp
    with Nil assms(1) r show ?thesis
      by (subst objv_loop.simps) (simp add: array_read_def butlast_append)
  next
    case (Cons ob' obs')
    with l obtain t' ts' where "ts = t' # ts'" by (cases ts) auto
    with Cons assms(1) r show ?thesis
      by (subst objv_loop.simps) (simp add: array_read_def butlast_append)
  qed
qed

lemma source_loop_done:
  "numRemoved \<le> i \<Longrightarrow>
   source_loop cfg mem src numRemoved objc message i isFirst objPtr = Some (objPtr, isFirst)"
  by (subst source_loop.simps) simp

lemma array_read_append3:
  "array_read (pre @ x # post @ extra) (int (length pre)) = Some x"
  by (simp add: array_read_def)

lemma source_loop_rest:
  "list_all2 (\<lambda>ob s. map_option fst (Tcl_GetStringFromObj mem ob) = Some s) post strs \<Longrightarrow>
   source_loop cfg mem (pre @ post @ extra) (int (length (pre @ post))) objc message
     (int (length pre)) False objPtr
   = Some (objPtr @ (if objc \<noteq> 0 \<or> message \<noteq> None
                     then concat (map (\<lambda>s. quoted_element cfg False s @ '' '') strs)
                     else butlast (concat (map (\<lambda>s. quoted_element cfg False s @ '' '') strs))),
           False)"
proof (induction post arbitrary: pre strs objPtr)
  case Nil
  then show ?case by (simp add: source_loop_done)
next
  case (Cons ob post)
  from Cons.prems obtain s strs' where ss: "strs = s # strs'"
    and g: "map_option fst (Tcl_GetStringFromObj mem ob) = Some s"
    and r: "list_all2 (\<lambda>ob s. map_option fst (Tcl_GetStringFromObj mem ob) = Some s) post strs'"
    by (auto simp: list_all2_Cons1)
  from g obtain ob' where g': "Tcl_GetStringFromObj mem ob = Some (s, ob')" by auto
  from Cons.IH[OF r, of "pre @ [ob]"]
  have ih: "\<And>objPtr. source_loop cfg mem (pre @ ob # post @ extra)
       (int (length (pre @ ob # post))) objc message (int (length pre) + 1) False objPtr
     = Some (objPtr @ (if objc \<noteq> 0 \<or> message \<noteq> None
                     then concat (map (\<lambda>s. quoted_element cfg False s @ '' '') strs')
                     else butlast (concat (map (\<lambda>s. quoted_element cfg False s @ '' '') strs'))),
           False)"
    by (simp add: add.commute)
  have l: "length strs' = length post" using r by (simp add: list_all2_lengthD)
  have a: "array_read (pre @ (ob # post) @ extra) (int (length pre)) = Some ob"
    using array_read_append3[of pre ob post extra] by simp
  show ?case
  proof (cases post)
    case Nil
    with l have "strs' = []" by simp
    with Nil ss g' ih a show ?thesis
      by (subst source_loop.simps) (simp add: butlast_append)
  next
    case (Cons ob2 post')
    with l obtain s' strs'' where "strs' = s' # strs''" by (cases strs') auto
    with Cons ss g' ih a show ?thesis
      by (subst source_loop.simps) (simp add: butlast_append)
  qed
qed

lemma source_loop_texts:
  assumes "map_option fst (Tcl_GetStringFromObj mem sob) = Some s"
    and "list_all2 (\<lambda>ob s. map_option fst (Tcl_GetStringFromObj mem ob) = Some s) sobs ss"
  shows "source_loop cfg mem (sob # sobs @ extra) (int (length (sob # sobs))) objc message 0
      True objPtr
   = Some (objPtr @ (if objc \<noteq> 0 \<or> message \<noteq> None
               then concat (map (\<lambda>t. t @ '' '')
                      (quoted_element cfg True s # map (quoted_element cfg False) ss))
               else butlast (concat (map (\<lambda>t. t @ '' '')
                      (quoted_element cfg True s # map (quoted_element cfg False) ss)))),
           False)"
proof -
  from assms(1) obtain ob' where g: "Tcl_GetStringFromObj mem sob = Some (s, ob')" by auto
  from source_loop_rest[OF assms(2), of cfg "[sob]" extra objc message]
  have r: "\<And>objPtr. source_loop cfg mem (sob # sobs @ extra) (int (length (sob # sobs))) objc
       message 1 False objPtr
     = Some (objPtr @ (if objc \<noteq> 0 \<or> message \<noteq> None
                     then concat (map (\<lambda>s. quoted_element cfg False s @ '' '') ss)
                     else butlast (concat (map (\<lambda>s. quoted_element cfg False s @ '' '') ss))),
           False)"
    by simp
  have l: "length ss = length sobs" using assms(2) by (simp add: list_all2_lengthD)
  show ?thesis
  proof (cases sobs)
    case Nil
    with l have "ss = []" by simp
    with Nil g r show ?thesis
      by (subst source_loop.simps) (simp add: array_read_def butlast_append)
  next
    case (Cons ob2 sobs')
    with l obtain s' ss' where "ss = s' # ss'" by (cases ss) auto
    with Cons g r show ?thesis
      by (subst source_loop.simps) (simp add: array_read_def butlast_append comp_def)
  qed
qed

lemma wrong_args_no_rewrite:
  \<open>sourceObjs (ensembleRewrite iPtr) = None \<Longrightarrow>
   Tcl_WrongNumArgs cfg mem iPtr objc objv message
     = (case objv_loop cfg mem objv objc message 0 True
               (if iflags iPtr AND INTERP_ALTERNATE_WRONG_ARGS \<noteq> 0
                then objResult iPtr @ '' or "''
                else ''wrong # args: should be "'') of
          None \<Rightarrow> None
        | Some text \<Rightarrow>
            Some (iPtr\<lparr>objResult :=
                    text @ (case message of None \<Rightarrow> [] | Some m \<Rightarrow> m) @ ''"''\<rparr>))\<close>
  by (simp add: Tcl_WrongNumArgs_def Tcl_SetObjResult_def Let_def split: option.splits)

lemmas wrong_args_eval =
  Tcl_WrongNumArgs_def Tcl_SetObjResult_def Let_def objv_loop.simps source_loop.simps
  entry_text_def quoted_element_def MAY_QUOTE_WORD_def array_read_def
  Tcl_GetStringFromObj_def UpdateStringOfIndex_def EXPAND_OF_def STRING_AT_def int_times_def
  Tcl_NewStringObj_def INTERP_ALTERNATE_WRONG_ARGS_def
  demo_config_def demo_interp_def demo_mem_def

lemma quoted_element_unfold:
  "quoted_element cfg isFirst s
     = (if (AVOID_HACKS_FOR_ITCL cfg \<or> \<not> isFirst)
            \<and> fst (Tcl_ScanCountedElement cfg s) \<noteq> int (length s)
        then Tcl_ConvertCountedElement cfg s (snd (Tcl_ScanCountedElement cfg s))
        else s)"
  by (auto simp: quoted_element_def MAY_QUOTE_WORD_def split: prod.splits)

lemma spaced_nonempty: "concat (map (\<lambda>t. t @ '' '') (t # ts)) \<noteq> []"
  by simp

lemma wrong_args_not_rewritten:
  assumes "sourceObjs (ensembleRewrite iPtr) = Some src"
    and "objc < numInsertedObjs (ensembleRewrite iPtr)"
  shows "Tcl_WrongNumArgs cfg mem iPtr objc objv message
     = map_option (\<lambda>ip. ip\<lparr>ensembleRewrite := ensembleRewrite iPtr\<rparr>)
         (Tcl_WrongNumArgs cfg mem
            (iPtr\<lparr>ensembleRewrite := (ensembleRewrite iPtr)\<lparr>sourceObjs := None\<rparr>\<rparr>)
            objc objv message)"
  using assms
  by (simp add: Tcl_WrongNumArgs_def Tcl_SetObjResult_def Let_def split: option.splits)

lemma wrong_args_dropped_only:
  assumes "sourceObjs (ensembleRewrite iPtr) = Some src"
    and "numRemovedObjs (ensembleRewrite iPtr) \<le> 0"
    and "0 \<le> numInsertedObjs (ensembleRewrite iPtr)"
    and "numInsertedObjs (ensembleRewrite iPtr) \<le> objc"
  shows "Tcl_WrongNumArgs cfg mem iPtr objc objv message
     = map_option (\<lambda>ip. ip\<lparr>ensembleRewrite := ensembleRewrite iPtr\<rparr>)
         (Tcl_WrongNumArgs cfg mem
            (iPtr\<lparr>ensembleRewrite := (ensembleRewrite iPtr)\<lparr>sourceObjs := None\<rparr>\<rparr>)
            (objc - numInsertedObjs (ensembleRewrite iPtr))
            (drop (nat (numInsertedObjs (ensembleRewrite iPtr))) objv) message)"
  using assms
  by (simp add: Tcl_WrongNumArgs_def Tcl_SetObjResult_def Let_def source_loop_done
      split: option.splits)

lemma wrong_args_rewritten:
  assumes \<open>seed = (if iflags iPtr AND INTERP_ALTERNATE_WRONG_ARGS \<noteq> 0
            then objResult iPtr @ '' or "''
            else ''wrong # args: should be "'')\<close>
    and "sourceObjs (ensembleRewrite iPtr) = Some src"
    and "0 \<le> numInsertedObjs (ensembleRewrite iPtr)"
    and "numInsertedObjs (ensembleRewrite iPtr) \<le> objc"
    and "source_loop cfg mem src (numRemovedObjs (ensembleRewrite iPtr))
           (objc - numInsertedObjs (ensembleRewrite iPtr)) message 0 True seed
         = Some (text1, isFirst)"
    and "objv_loop cfg mem (drop (nat (numInsertedObjs (ensembleRewrite iPtr))) objv)
           (objc - numInsertedObjs (ensembleRewrite iPtr)) message 0 isFirst text1 = Some text2"
  shows \<open>Tcl_WrongNumArgs cfg mem iPtr objc objv message
     = Some (iPtr\<lparr>objResult := text2 @ (case message of None \<Rightarrow> [] | Some m \<Rightarrow> m) @ ''"''\<rparr>)\<close>
  unfolding Tcl_WrongNumArgs_def Let_def assms(1)[symmetric]
  using assms(2-) by (simp add: Tcl_SetObjResult_def)

lemma spaced_join:
  "(if ts \<noteq> [] \<or> follows then concat (map (\<lambda>t. t @ '' '') xs)
    else butlast (concat (map (\<lambda>t. t @ '' '') xs)))
   @ (if follows then concat (map (\<lambda>t. t @ '' '') ts)
      else butlast (concat (map (\<lambda>t. t @ '' '') ts)))
   = (if follows then concat (map (\<lambda>t. t @ '' '') (xs @ ts))
      else butlast (concat (map (\<lambda>t. t @ '' '') (xs @ ts))))"
  by (cases ts) (simp_all add: butlast_append)

lemma wrong_args_substituted:
  assumes rw: "ensembleRewrite iPtr
        = \<lparr>sourceObjs = Some (sob # sobs @ extra),
           numRemovedObjs = int (length (sob # sobs)), numInsertedObjs = int n\<rparr>"
    and n: "n \<le> length objv"
    and s: "map_option fst (Tcl_GetStringFromObj mem sob) = Some s"
    and ss: "list_all2 (\<lambda>ob s. map_option fst (Tcl_GetStringFromObj mem ob) = Some s) sobs ss"
    and ts: "list_all2 (\<lambda>ob t. entry_text cfg mem False ob = Some t) (drop n objv) ts"
  shows \<open>Tcl_WrongNumArgs cfg mem iPtr (int (length objv)) objv message
       = Some (iPtr\<lparr>objResult :=
           (if iflags iPtr AND INTERP_ALTERNATE_WRONG_ARGS \<noteq> 0
            then objResult iPtr @ '' or "''
            else ''wrong # args: should be "'')
           @ (case message of
                None \<Rightarrow> butlast (concat (map (\<lambda>t. t @ '' '')
                  (quoted_element cfg True s # map (quoted_element cfg False) ss @ ts)))
              | Some m \<Rightarrow> concat (map (\<lambda>t. t @ '' '')
                  (quoted_element cfg True s # map (quoted_element cfg False) ss @ ts)) @ m)
           @ ''"''\<rparr>)\<close>
proof -
  define seed where \<open>seed = (if iflags iPtr AND INTERP_ALTERNATE_WRONG_ARGS \<noteq> 0
            then objResult iPtr @ '' or "''
            else ''wrong # args: should be "'')\<close>
  define xs where "xs = quoted_element cfg True s # map (quoted_element cfg False) ss"
  define objc' where "objc' = int (length objv) - int n"
  define text1 where "text1 = seed @ (if objc' \<noteq> 0 \<or> message \<noteq> None
      then concat (map (\<lambda>t. t @ '' '') xs) else butlast (concat (map (\<lambda>t. t @ '' '') xs)))"
  define text2 where "text2 = text1 @ (if message \<noteq> None
      then concat (map (\<lambda>t. t @ '' '') ts) else butlast (concat (map (\<lambda>t. t @ '' '') ts)))"
  have l: "length ts = length objv - n" using ts by (auto dest: list_all2_lengthD)
  have e: "int (length objv) - int n = int (length (drop n objv))" using n by simp
  have z: "(objc' \<noteq> 0) = (ts \<noteq> [])" using l n by (auto simp: objc'_def)
  have r1: "sourceObjs (ensembleRewrite iPtr) = Some (sob # sobs @ extra)"
    and r2: "numRemovedObjs (ensembleRewrite iPtr) = int (length (sob # sobs))"
    and r3: "numInsertedObjs (ensembleRewrite iPtr) = int n"
    by (simp_all add: rw)
  have sl: "source_loop cfg mem (sob # sobs @ extra) (numRemovedObjs (ensembleRewrite iPtr))
           (int (length objv) - numInsertedObjs (ensembleRewrite iPtr)) message 0 True seed
         = Some (text1, False)"
    unfolding r2 r3 text1_def xs_def objc'_def
    by (rule source_loop_texts[OF s ss])
  have ol0: "objv_loop cfg mem (drop n objv) (int (length (drop n objv))) message 0 False text1
         = Some text2"
    unfolding text2_def using objv_loop_rest[OF ts, of "[]" message text1] by simp
  have ol: "objv_loop cfg mem (drop (nat (numInsertedObjs (ensembleRewrite iPtr))) objv)
           (int (length objv) - numInsertedObjs (ensembleRewrite iPtr)) message 0 False text1
         = Some text2"
    unfolding r3 nat_int e by (rule ol0)
  have i1: "0 \<le> numInsertedObjs (ensembleRewrite iPtr)" by (simp add: r3)
  have i2: "numInsertedObjs (ensembleRewrite iPtr) \<le> int (length objv)" using n by (simp add: r3)
  have j: "text2 = seed @ (if message \<noteq> None then concat (map (\<lambda>t. t @ '' '') (xs @ ts))
      else butlast (concat (map (\<lambda>t. t @ '' '') (xs @ ts))))"
    unfolding text2_def text1_def z
    using spaced_join[of ts "message \<noteq> None" xs] by simp
  have \<open>Tcl_WrongNumArgs cfg mem iPtr (int (length objv)) objv message
     = Some (iPtr\<lparr>objResult := text2 @ (case message of None \<Rightarrow> [] | Some m \<Rightarrow> m) @ ''"''\<rparr>)\<close>
    by (rule wrong_args_rewritten[OF seed_def r1 i1 i2 sl ol])
  also have \<open>text2 @ (case message of None \<Rightarrow> [] | Some m \<Rightarrow> m) @ ''"''
      = seed @ (case message of
                None \<Rightarrow> butlast (concat (map (\<lambda>t. t @ '' '') (xs @ ts)))
              | Some m \<Rightarrow> concat (map (\<lambda>t. t @ '' '') (xs @ ts)) @ m) @ ''"''\<close>
    unfolding j by (cases message) simp_all
  finally show ?thesis unfolding seed_def xs_def append_Cons .
qed

subsection \<open>What is appended for an argument\<close>




subsection \<open>The layout of the message\<close>

text \<open>
  C8, with the space decided by the presence of the message. Without a rewrite context
  the result is the seed (the current result followed by \<open> or "\<close> under
  \<open>INTERP_ALTERNATE_WRONG_ARGS\<close>, and
  \<open>wrong # args: should be "\<close> otherwise), the texts of the arguments, the
  message if there is one, and a closing quote. Every text is followed by one space,
  except the last one when \<open>message\<close> is NULL; a message that is present
  but empty still puts a space after the last text. For the arguments
  \<open>foo\<close> and \<open>bar\<close>, which the quoting leaves as they are, and
  the message \<open>additional stuff\<close> the result is
  \<open>wrong # args: should be "foo bar additional stuff"\<close>.
\<close>

theorem wrong_args_message_layout:
  \<open>(sourceObjs (ensembleRewrite iPtr) = None \<and> entry_text cfg mem True ob = Some t
       \<and> list_all2 (\<lambda>ob t. entry_text cfg mem False ob = Some t) obs ts \<longrightarrow>
     Tcl_WrongNumArgs cfg mem iPtr (int (length (ob # obs))) (ob # obs) message
       = Some (iPtr\<lparr>objResult :=
           (if iflags iPtr AND INTERP_ALTERNATE_WRONG_ARGS \<noteq> 0
            then objResult iPtr @ '' or "''
            else ''wrong # args: should be "'')
           @ (case message of
                None \<Rightarrow> butlast (concat (map (\<lambda>t. t @ '' '') (t # ts)))
              | Some m \<Rightarrow> concat (map (\<lambda>t. t @ '' '') (t # ts)) @ m)
           @ ''"''\<rparr>))
   \<and> (sourceObjs (ensembleRewrite iPtr) = None \<longrightarrow>
     Tcl_WrongNumArgs cfg mem iPtr 0 [] message
       = Some (iPtr\<lparr>objResult :=
           (if iflags iPtr AND INTERP_ALTERNATE_WRONG_ARGS \<noteq> 0
            then objResult iPtr @ '' or "''
            else ''wrong # args: should be "'')
           @ (case message of None \<Rightarrow> [] | Some m \<Rightarrow> m) @ ''"''\<rparr>))
   \<and> (sourceObjs (ensembleRewrite iPtr) = None
       \<and> iflags iPtr AND INTERP_ALTERNATE_WRONG_ARGS = 0
       \<and> quoted_element cfg True ''foo'' = ''foo'' \<and> quoted_element cfg False ''bar'' = ''bar'' \<longrightarrow>
     Tcl_WrongNumArgs cfg mem iPtr 2 [Tcl_NewStringObj ''foo'', Tcl_NewStringObj ''bar'']
         (Some ''additional stuff'')
       = Some (iPtr\<lparr>objResult := ''wrong # args: should be "foo bar additional stuff"''\<rparr>))\<close>
proof (intro conjI impI)
  assume a: "sourceObjs (ensembleRewrite iPtr) = None \<and> entry_text cfg mem True ob = Some t
       \<and> list_all2 (\<lambda>ob t. entry_text cfg mem False ob = Some t) obs ts"
  then have n: "sourceObjs (ensembleRewrite iPtr) = None" by simp
  from a objv_loop_texts[of cfg mem True ob t obs ts message]
  show \<open>Tcl_WrongNumArgs cfg mem iPtr (int (length (ob # obs))) (ob # obs) message
       = Some (iPtr\<lparr>objResult :=
           (if iflags iPtr AND INTERP_ALTERNATE_WRONG_ARGS \<noteq> 0
            then objResult iPtr @ '' or "''
            else ''wrong # args: should be "'')
           @ (case message of
                None \<Rightarrow> butlast (concat (map (\<lambda>t. t @ '' '') (t # ts)))
              | Some m \<Rightarrow> concat (map (\<lambda>t. t @ '' '') (t # ts)) @ m)
           @ ''"''\<rparr>)\<close>
    unfolding wrong_args_no_rewrite[OF n] by (cases message) simp_all
next
  assume n: "sourceObjs (ensembleRewrite iPtr) = None"
  show \<open>Tcl_WrongNumArgs cfg mem iPtr 0 [] message
       = Some (iPtr\<lparr>objResult :=
           (if iflags iPtr AND INTERP_ALTERNATE_WRONG_ARGS \<noteq> 0
            then objResult iPtr @ '' or "''
            else ''wrong # args: should be "'')
           @ (case message of None \<Rightarrow> [] | Some m \<Rightarrow> m) @ ''"''\<rparr>)\<close>
    unfolding wrong_args_no_rewrite[OF n] by (simp add: objv_loop_done)
next
  assume a: "sourceObjs (ensembleRewrite iPtr) = None
       \<and> iflags iPtr AND INTERP_ALTERNATE_WRONG_ARGS = 0
       \<and> quoted_element cfg True ''foo'' = ''foo'' \<and> quoted_element cfg False ''bar'' = ''bar''"
  then have n: "sourceObjs (ensembleRewrite iPtr) = None" by simp
  have f: "entry_text cfg mem True (Tcl_NewStringObj ''foo'') = Some ''foo''"
    using a by (simp add: entry_text_def Tcl_NewStringObj_def Tcl_GetStringFromObj_def)
  have b: "list_all2 (\<lambda>ob t. entry_text cfg mem False ob = Some t) [Tcl_NewStringObj ''bar'']
      [''bar'']"
    using a by (simp add: entry_text_def Tcl_NewStringObj_def Tcl_GetStringFromObj_def)
  from a objv_loop_texts[OF f b, of "Some ''additional stuff''"]
  show \<open>Tcl_WrongNumArgs cfg mem iPtr 2 [Tcl_NewStringObj ''foo'', Tcl_NewStringObj ''bar'']
         (Some ''additional stuff'')
       = Some (iPtr\<lparr>objResult := ''wrong # args: should be "foo bar additional stuff"''\<rparr>)\<close>
    unfolding wrong_args_no_rewrite[OF n] by simp
qed

theorem wrong_args_message_layout_witness:
  \<open>sourceObjs (ensembleRewrite demo_interp) = None
   \<and> iflags demo_interp AND INTERP_ALTERNATE_WRONG_ARGS = 0
   \<and> quoted_element demo_config True ''foo'' = ''foo''
   \<and> quoted_element demo_config False ''bar'' = ''bar''
   \<and> Tcl_WrongNumArgs demo_config demo_mem demo_interp 2
         [Tcl_NewStringObj ''foo'', Tcl_NewStringObj ''bar''] (Some ''additional stuff'')
       = Some (demo_interp\<lparr>objResult := ''wrong # args: should be "foo bar additional stuff"''\<rparr>)
   \<and> Tcl_WrongNumArgs demo_config demo_mem demo_interp 0 [] None
       = Some (demo_interp\<lparr>objResult := ''wrong # args: should be ""''\<rparr>)
   \<and> sourceObjs (ensembleRewrite
        (demo_interp\<lparr>objResult := ''usage A'', iflags := INTERP_ALTERNATE_WRONG_ARGS\<rparr>)) = None
   \<and> entry_text demo_config demo_mem True (Tcl_NewStringObj ''cmd'') = Some ''cmd''
   \<and> list_all2 (\<lambda>ob t. entry_text demo_config demo_mem False ob = Some t)
        [Tcl_NewStringObj ''foo bar''] [''{foo bar}'']
   \<and> Tcl_WrongNumArgs demo_config demo_mem
         (demo_interp\<lparr>objResult := ''usage A'', iflags := INTERP_ALTERNATE_WRONG_ARGS\<rparr>)
         2 [Tcl_NewStringObj ''cmd'', Tcl_NewStringObj ''foo bar''] None
       = Some (demo_interp\<lparr>objResult := ''usage A or "cmd {foo bar}"'',
                 iflags := INTERP_ALTERNATE_WRONG_ARGS\<rparr>)\<close>
proof -
  have h1: "sourceObjs (ensembleRewrite demo_interp) = None
     \<and> iflags demo_interp AND INTERP_ALTERNATE_WRONG_ARGS = 0
     \<and> quoted_element demo_config True ''foo'' = ''foo''
     \<and> quoted_element demo_config False ''bar'' = ''bar''"
    by (simp add: demo_interp_def demo_config_def quoted_element_def MAY_QUOTE_WORD_def)
  have h2: "sourceObjs (ensembleRewrite
        (demo_interp\<lparr>objResult := ''usage A'', iflags := INTERP_ALTERNATE_WRONG_ARGS\<rparr>)) = None
     \<and> entry_text demo_config demo_mem True (Tcl_NewStringObj ''cmd'') = Some ''cmd''
     \<and> list_all2 (\<lambda>ob t. entry_text demo_config demo_mem False ob = Some t)
        [Tcl_NewStringObj ''foo bar''] [''{foo bar}'']"
    by (simp add: wrong_args_eval)
  from wrong_args_message_layout[where iPtr = demo_interp and cfg = demo_config
      and mem = demo_mem and message = None] h1
  have c1: \<open>Tcl_WrongNumArgs demo_config demo_mem demo_interp 2
         [Tcl_NewStringObj ''foo'', Tcl_NewStringObj ''bar''] (Some ''additional stuff'')
       = Some (demo_interp\<lparr>objResult := ''wrong # args: should be "foo bar additional stuff"''\<rparr>)\<close>
    and c2: \<open>Tcl_WrongNumArgs demo_config demo_mem demo_interp 0 [] None
       = Some (demo_interp\<lparr>objResult := ''wrong # args: should be ""''\<rparr>)\<close>
    by (simp_all add: demo_interp_def INTERP_ALTERNATE_WRONG_ARGS_def)
  from wrong_args_message_layout[where
      iPtr = "demo_interp\<lparr>objResult := ''usage A'', iflags := INTERP_ALTERNATE_WRONG_ARGS\<rparr>"
      and cfg = demo_config and mem = demo_mem and message = None
      and ob = "Tcl_NewStringObj ''cmd''" and t = "''cmd''"
      and obs = "[Tcl_NewStringObj ''foo bar'']" and ts = "[''{foo bar}'']"] h2
  have c3: \<open>Tcl_WrongNumArgs demo_config demo_mem
         (demo_interp\<lparr>objResult := ''usage A'', iflags := INTERP_ALTERNATE_WRONG_ARGS\<rparr>)
         2 [Tcl_NewStringObj ''cmd'', Tcl_NewStringObj ''foo bar''] None
       = Some (demo_interp\<lparr>objResult := ''usage A or "cmd {foo bar}"'',
                 iflags := INTERP_ALTERNATE_WRONG_ARGS\<rparr>)\<close>
    by (simp add: demo_interp_def INTERP_ALTERNATE_WRONG_ARGS_def)
  from h1 h2 c1 c2 c3 show ?thesis by blast
qed

theorem empty_message_leaves_space:
  \<open>Tcl_WrongNumArgs demo_config demo_mem demo_interp 1 [Tcl_NewStringObj ''foo''] (Some '''')
     = Some (demo_interp\<lparr>objResult := ''wrong # args: should be "foo "''\<rparr>)\<close>
  by (simp add: wrong_args_eval)

subsection \<open>The rewrite context\<close>

text \<open>
  C9, with the space decided by the presence of the message. With a rewrite context
  whose \<open>numInsertedObjs\<close> does not exceed \<open>objc\<close>, that many
  leading arguments are dropped and the first \<open>numRemovedObjs\<close> source
  objects are rendered in their place, in order, by their string forms; each is
  converted when the scan asks for it, except the first one of the message in the
  default build. The remaining arguments follow. Every text is followed by one space,
  except the last text of the message when \<open>message\<close> is NULL. With no
  source object to render the arguments are only dropped, and when \<open>objc\<close>
  is below \<open>numInsertedObjs\<close> the context has no effect at all.
\<close>

theorem wrong_args_rewrite:
  \<open>(ensembleRewrite iPtr
        = \<lparr>sourceObjs = Some (sob # sobs @ extra),
           numRemovedObjs = int (length (sob # sobs)), numInsertedObjs = int n\<rparr>
      \<and> n \<le> length objv
      \<and> map_option fst (Tcl_GetStringFromObj mem sob) = Some s
      \<and> list_all2 (\<lambda>ob s. map_option fst (Tcl_GetStringFromObj mem ob) = Some s) sobs ss
      \<and> list_all2 (\<lambda>ob t. entry_text cfg mem False ob = Some t) (drop n objv) ts \<longrightarrow>
     Tcl_WrongNumArgs cfg mem iPtr (int (length objv)) objv message
       = Some (iPtr\<lparr>objResult :=
           (if iflags iPtr AND INTERP_ALTERNATE_WRONG_ARGS \<noteq> 0
            then objResult iPtr @ '' or "''
            else ''wrong # args: should be "'')
           @ (case message of
                None \<Rightarrow> butlast (concat (map (\<lambda>t. t @ '' '')
                  (quoted_element cfg True s # map (quoted_element cfg False) ss @ ts)))
              | Some m \<Rightarrow> concat (map (\<lambda>t. t @ '' '')
                  (quoted_element cfg True s # map (quoted_element cfg False) ss @ ts)) @ m)
           @ ''"''\<rparr>))
   \<and> quoted_element cfg isFirst w
       = (if (AVOID_HACKS_FOR_ITCL cfg \<or> \<not> isFirst)
              \<and> fst (Tcl_ScanCountedElement cfg w) \<noteq> int (length w)
          then Tcl_ConvertCountedElement cfg w (snd (Tcl_ScanCountedElement cfg w))
          else w)
   \<and> (sourceObjs (ensembleRewrite iPtr) = Some src
      \<and> numRemovedObjs (ensembleRewrite iPtr) \<le> 0
      \<and> 0 \<le> numInsertedObjs (ensembleRewrite iPtr)
      \<and> numInsertedObjs (ensembleRewrite iPtr) \<le> objc \<longrightarrow>
     Tcl_WrongNumArgs cfg mem iPtr objc objv message
       = map_option (\<lambda>ip. ip\<lparr>ensembleRewrite := ensembleRewrite iPtr\<rparr>)
           (Tcl_WrongNumArgs cfg mem
              (iPtr\<lparr>ensembleRewrite := (ensembleRewrite iPtr)\<lparr>sourceObjs := None\<rparr>\<rparr>)
              (objc - numInsertedObjs (ensembleRewrite iPtr))
              (drop (nat (numInsertedObjs (ensembleRewrite iPtr))) objv) message))
   \<and> (sourceObjs (ensembleRewrite iPtr) = Some src
      \<and> objc < numInsertedObjs (ensembleRewrite iPtr) \<longrightarrow>
     Tcl_WrongNumArgs cfg mem iPtr objc objv message
       = map_option (\<lambda>ip. ip\<lparr>ensembleRewrite := ensembleRewrite iPtr\<rparr>)
           (Tcl_WrongNumArgs cfg mem
              (iPtr\<lparr>ensembleRewrite := (ensembleRewrite iPtr)\<lparr>sourceObjs := None\<rparr>\<rparr>)
              objc objv message))\<close>
proof (intro conjI impI)
  assume "ensembleRewrite iPtr
        = \<lparr>sourceObjs = Some (sob # sobs @ extra),
           numRemovedObjs = int (length (sob # sobs)), numInsertedObjs = int n\<rparr>
      \<and> n \<le> length objv
      \<and> map_option fst (Tcl_GetStringFromObj mem sob) = Some s
      \<and> list_all2 (\<lambda>ob s. map_option fst (Tcl_GetStringFromObj mem ob) = Some s) sobs ss
      \<and> list_all2 (\<lambda>ob t. entry_text cfg mem False ob = Some t) (drop n objv) ts"
  then show \<open>Tcl_WrongNumArgs cfg mem iPtr (int (length objv)) objv message
       = Some (iPtr\<lparr>objResult :=
           (if iflags iPtr AND INTERP_ALTERNATE_WRONG_ARGS \<noteq> 0
            then objResult iPtr @ '' or "''
            else ''wrong # args: should be "'')
           @ (case message of
                None \<Rightarrow> butlast (concat (map (\<lambda>t. t @ '' '')
                  (quoted_element cfg True s # map (quoted_element cfg False) ss @ ts)))
              | Some m \<Rightarrow> concat (map (\<lambda>t. t @ '' '')
                  (quoted_element cfg True s # map (quoted_element cfg False) ss @ ts)) @ m)
           @ ''"''\<rparr>)\<close>
    using wrong_args_substituted[of iPtr sob sobs extra n objv mem s ss cfg ts message] by blast
next
  show "quoted_element cfg isFirst w
       = (if (AVOID_HACKS_FOR_ITCL cfg \<or> \<not> isFirst)
              \<and> fst (Tcl_ScanCountedElement cfg w) \<noteq> int (length w)
          then Tcl_ConvertCountedElement cfg w (snd (Tcl_ScanCountedElement cfg w))
          else w)"
    by (rule quoted_element_unfold)
next
  assume "sourceObjs (ensembleRewrite iPtr) = Some src
      \<and> numRemovedObjs (ensembleRewrite iPtr) \<le> 0
      \<and> 0 \<le> numInsertedObjs (ensembleRewrite iPtr)
      \<and> numInsertedObjs (ensembleRewrite iPtr) \<le> objc"
  then show "Tcl_WrongNumArgs cfg mem iPtr objc objv message
       = map_option (\<lambda>ip. ip\<lparr>ensembleRewrite := ensembleRewrite iPtr\<rparr>)
           (Tcl_WrongNumArgs cfg mem
              (iPtr\<lparr>ensembleRewrite := (ensembleRewrite iPtr)\<lparr>sourceObjs := None\<rparr>\<rparr>)
              (objc - numInsertedObjs (ensembleRewrite iPtr))
              (drop (nat (numInsertedObjs (ensembleRewrite iPtr))) objv) message)"
    using wrong_args_dropped_only[of iPtr src objc cfg mem objv message] by blast
next
  assume "sourceObjs (ensembleRewrite iPtr) = Some src
      \<and> objc < numInsertedObjs (ensembleRewrite iPtr)"
  then show "Tcl_WrongNumArgs cfg mem iPtr objc objv message
       = map_option (\<lambda>ip. ip\<lparr>ensembleRewrite := ensembleRewrite iPtr\<rparr>)
           (Tcl_WrongNumArgs cfg mem
              (iPtr\<lparr>ensembleRewrite := (ensembleRewrite iPtr)\<lparr>sourceObjs := None\<rparr>\<rparr>)
              objc objv message)"
    using wrong_args_not_rewritten[of iPtr src objc cfg mem objv message] by blast
qed

theorem wrong_args_rewrite_witness:
  \<open>ensembleRewrite (demo_interp\<lparr>ensembleRewrite :=
        \<lparr>sourceObjs = Some [Tcl_NewStringObj ''my ens'', Tcl_NewStringObj ''sub cmd''],
         numRemovedObjs = 2, numInsertedObjs = 1\<rparr>\<rparr>)
     = \<lparr>sourceObjs = Some (Tcl_NewStringObj ''my ens'' # [Tcl_NewStringObj ''sub cmd''] @ []),
        numRemovedObjs = int (length (Tcl_NewStringObj ''my ens'' # [Tcl_NewStringObj ''sub cmd''])),
        numInsertedObjs = int 1\<rparr>
   \<and> 1 \<le> length [Tcl_NewStringObj ''impl'', Tcl_NewStringObj ''arg one'']
   \<and> map_option fst (Tcl_GetStringFromObj demo_mem (Tcl_NewStringObj ''my ens''))
       = Some ''my ens''
   \<and> list_all2 (\<lambda>ob s. map_option fst (Tcl_GetStringFromObj demo_mem ob) = Some s)
        [Tcl_NewStringObj ''sub cmd''] [''sub cmd'']
   \<and> list_all2 (\<lambda>ob t. entry_text demo_config demo_mem False ob = Some t)
        (drop 1 [Tcl_NewStringObj ''impl'', Tcl_NewStringObj ''arg one'']) [''{arg one}'']
   \<and> Tcl_WrongNumArgs demo_config demo_mem
        (demo_interp\<lparr>ensembleRewrite :=
          \<lparr>sourceObjs = Some [Tcl_NewStringObj ''my ens'', Tcl_NewStringObj ''sub cmd''],
           numRemovedObjs = 2, numInsertedObjs = 1\<rparr>\<rparr>)
        2 [Tcl_NewStringObj ''impl'', Tcl_NewStringObj ''arg one''] (Some ''?x?'')
      = Some (demo_interp\<lparr>ensembleRewrite :=
          \<lparr>sourceObjs = Some [Tcl_NewStringObj ''my ens'', Tcl_NewStringObj ''sub cmd''],
           numRemovedObjs = 2, numInsertedObjs = 1\<rparr>,
          objResult := ''wrong # args: should be "my ens {sub cmd} {arg one} ?x?"''\<rparr>)
   \<and> sourceObjs (ensembleRewrite (demo_interp\<lparr>ensembleRewrite :=
        \<lparr>sourceObjs = Some [Tcl_NewStringObj ''ens''], numRemovedObjs = 1,
         numInsertedObjs = 5\<rparr>\<rparr>)) = Some [Tcl_NewStringObj ''ens'']
   \<and> (2::int) < numInsertedObjs (ensembleRewrite (demo_interp\<lparr>ensembleRewrite :=
        \<lparr>sourceObjs = Some [Tcl_NewStringObj ''ens''], numRemovedObjs = 1,
         numInsertedObjs = 5\<rparr>\<rparr>))
   \<and> Tcl_WrongNumArgs demo_config demo_mem
        (demo_interp\<lparr>ensembleRewrite :=
          \<lparr>sourceObjs = Some [Tcl_NewStringObj ''ens''], numRemovedObjs = 1,
           numInsertedObjs = 5\<rparr>\<rparr>)
        2 [Tcl_NewStringObj ''impl'', Tcl_NewStringObj ''arg one''] None
      = Some (demo_interp\<lparr>ensembleRewrite :=
          \<lparr>sourceObjs = Some [Tcl_NewStringObj ''ens''], numRemovedObjs = 1,
           numInsertedObjs = 5\<rparr>,
          objResult := ''wrong # args: should be "impl {arg one}"''\<rparr>)
   \<and> sourceObjs (ensembleRewrite (demo_interp\<lparr>ensembleRewrite :=
        \<lparr>sourceObjs = Some [Tcl_NewStringObj ''ens''], numRemovedObjs = 0,
         numInsertedObjs = 1\<rparr>\<rparr>)) = Some [Tcl_NewStringObj ''ens'']
   \<and> Tcl_WrongNumArgs demo_config demo_mem
        (demo_interp\<lparr>ensembleRewrite :=
          \<lparr>sourceObjs = Some [Tcl_NewStringObj ''ens''], numRemovedObjs = 0,
           numInsertedObjs = 1\<rparr>\<rparr>)
        2 [Tcl_NewStringObj ''impl'', Tcl_NewStringObj ''arg one''] None
      = Some (demo_interp\<lparr>ensembleRewrite :=
          \<lparr>sourceObjs = Some [Tcl_NewStringObj ''ens''], numRemovedObjs = 0,
           numInsertedObjs = 1\<rparr>,
          objResult := ''wrong # args: should be "arg one"''\<rparr>)\<close>
proof -
  have h1: "ensembleRewrite (demo_interp\<lparr>ensembleRewrite :=
        \<lparr>sourceObjs = Some [Tcl_NewStringObj ''my ens'', Tcl_NewStringObj ''sub cmd''],
         numRemovedObjs = 2, numInsertedObjs = 1\<rparr>\<rparr>)
     = \<lparr>sourceObjs = Some (Tcl_NewStringObj ''my ens'' # [Tcl_NewStringObj ''sub cmd''] @ []),
        numRemovedObjs = int (length (Tcl_NewStringObj ''my ens'' # [Tcl_NewStringObj ''sub cmd''])),
        numInsertedObjs = int 1\<rparr>
   \<and> 1 \<le> length [Tcl_NewStringObj ''impl'', Tcl_NewStringObj ''arg one'']
   \<and> map_option fst (Tcl_GetStringFromObj demo_mem (Tcl_NewStringObj ''my ens''))
       = Some ''my ens''
   \<and> list_all2 (\<lambda>ob s. map_option fst (Tcl_GetStringFromObj demo_mem ob) = Some s)
        [Tcl_NewStringObj ''sub cmd''] [''sub cmd'']
   \<and> list_all2 (\<lambda>ob t. entry_text demo_config demo_mem False ob = Some t)
        (drop 1 [Tcl_NewStringObj ''impl'', Tcl_NewStringObj ''arg one'']) [''{arg one}'']"
    by (simp add: wrong_args_eval)
  have h2: "sourceObjs (ensembleRewrite (demo_interp\<lparr>ensembleRewrite :=
        \<lparr>sourceObjs = Some [Tcl_NewStringObj ''ens''], numRemovedObjs = 1,
         numInsertedObjs = 5\<rparr>\<rparr>)) = Some [Tcl_NewStringObj ''ens'']
   \<and> (2::int) < numInsertedObjs (ensembleRewrite (demo_interp\<lparr>ensembleRewrite :=
        \<lparr>sourceObjs = Some [Tcl_NewStringObj ''ens''], numRemovedObjs = 1,
         numInsertedObjs = 5\<rparr>\<rparr>))"
    by simp
  have h3: "sourceObjs (ensembleRewrite (demo_interp\<lparr>ensembleRewrite :=
        \<lparr>sourceObjs = Some [Tcl_NewStringObj ''ens''], numRemovedObjs = 0,
         numInsertedObjs = 1\<rparr>\<rparr>)) = Some [Tcl_NewStringObj ''ens'']"
    by simp
  from wrong_args_rewrite[where
      iPtr = "demo_interp\<lparr>ensembleRewrite :=
        \<lparr>sourceObjs = Some [Tcl_NewStringObj ''my ens'', Tcl_NewStringObj ''sub cmd''],
         numRemovedObjs = 2, numInsertedObjs = 1\<rparr>\<rparr>"
      and sob = "Tcl_NewStringObj ''my ens''" and sobs = "[Tcl_NewStringObj ''sub cmd'']"
      and extra = "[]" and n = 1
      and objv = "[Tcl_NewStringObj ''impl'', Tcl_NewStringObj ''arg one'']"
      and mem = demo_mem and s = "''my ens''" and ss = "[''sub cmd'']" and cfg = demo_config
      and ts = "[''{arg one}'']" and message = "Some ''?x?''"] h1
  have c1: \<open>Tcl_WrongNumArgs demo_config demo_mem
        (demo_interp\<lparr>ensembleRewrite :=
          \<lparr>sourceObjs = Some [Tcl_NewStringObj ''my ens'', Tcl_NewStringObj ''sub cmd''],
           numRemovedObjs = 2, numInsertedObjs = 1\<rparr>\<rparr>)
        2 [Tcl_NewStringObj ''impl'', Tcl_NewStringObj ''arg one''] (Some ''?x?'')
      = Some (demo_interp\<lparr>ensembleRewrite :=
          \<lparr>sourceObjs = Some [Tcl_NewStringObj ''my ens'', Tcl_NewStringObj ''sub cmd''],
           numRemovedObjs = 2, numInsertedObjs = 1\<rparr>,
          objResult := ''wrong # args: should be "my ens {sub cmd} {arg one} ?x?"''\<rparr>)\<close>
    by (simp add: demo_interp_def demo_config_def quoted_element_def MAY_QUOTE_WORD_def
        INTERP_ALTERNATE_WRONG_ARGS_def)
  from wrong_args_rewrite[where
      iPtr = "demo_interp\<lparr>ensembleRewrite :=
        \<lparr>sourceObjs = Some [Tcl_NewStringObj ''ens''], numRemovedObjs = 1,
         numInsertedObjs = 5\<rparr>\<rparr>"
      and src = "[Tcl_NewStringObj ''ens'']" and objc = 2
      and objv = "[Tcl_NewStringObj ''impl'', Tcl_NewStringObj ''arg one'']"
      and mem = demo_mem and cfg = demo_config and message = None] h2
  have c2: \<open>Tcl_WrongNumArgs demo_config demo_mem
        (demo_interp\<lparr>ensembleRewrite :=
          \<lparr>sourceObjs = Some [Tcl_NewStringObj ''ens''], numRemovedObjs = 1,
           numInsertedObjs = 5\<rparr>\<rparr>)
        2 [Tcl_NewStringObj ''impl'', Tcl_NewStringObj ''arg one''] None
      = Some (demo_interp\<lparr>ensembleRewrite :=
          \<lparr>sourceObjs = Some [Tcl_NewStringObj ''ens''], numRemovedObjs = 1,
           numInsertedObjs = 5\<rparr>,
          objResult := ''wrong # args: should be "impl {arg one}"''\<rparr>)\<close>
    by (simp add: wrong_args_eval)
  from wrong_args_rewrite[where
      iPtr = "demo_interp\<lparr>ensembleRewrite :=
        \<lparr>sourceObjs = Some [Tcl_NewStringObj ''ens''], numRemovedObjs = 0,
         numInsertedObjs = 1\<rparr>\<rparr>"
      and src = "[Tcl_NewStringObj ''ens'']" and objc = 2
      and objv = "[Tcl_NewStringObj ''impl'', Tcl_NewStringObj ''arg one'']"
      and mem = demo_mem and cfg = demo_config and message = None] h3
  have c3: \<open>Tcl_WrongNumArgs demo_config demo_mem
        (demo_interp\<lparr>ensembleRewrite :=
          \<lparr>sourceObjs = Some [Tcl_NewStringObj ''ens''], numRemovedObjs = 0,
           numInsertedObjs = 1\<rparr>\<rparr>)
        2 [Tcl_NewStringObj ''impl'', Tcl_NewStringObj ''arg one''] None
      = Some (demo_interp\<lparr>ensembleRewrite :=
          \<lparr>sourceObjs = Some [Tcl_NewStringObj ''ens''], numRemovedObjs = 0,
           numInsertedObjs = 1\<rparr>,
          objResult := ''wrong # args: should be "arg one"''\<rparr>)\<close>
    by (simp add: wrong_args_eval)
  from h1 h2 h3 c1 c2 c3 show ?thesis by blast
qed

theorem empty_message_space_after_substitute:
  \<open>Tcl_WrongNumArgs demo_config demo_mem
       (demo_interp\<lparr>ensembleRewrite :=
          \<lparr>sourceObjs = Some [Tcl_NewStringObj ''ens''], numRemovedObjs = 1,
           numInsertedObjs = 1\<rparr>\<rparr>)
       1 [Tcl_NewStringObj ''impl''] (Some '''')
     = Some (demo_interp\<lparr>ensembleRewrite :=
          \<lparr>sourceObjs = Some [Tcl_NewStringObj ''ens''], numRemovedObjs = 1,
           numInsertedObjs = 1\<rparr>,
          objResult := ''wrong # args: should be "ens "''\<rparr>)\<close>
  by (simp add: wrong_args_eval)

end
